theory Spec2Isabelle
  imports Complex_Main "HOL-Library.AList"
begin

section \<open>Monte Carlo simulation driver of OPGEE (opgee/mcs/simulation.py)\<close>

text \<open>
  The embedding follows \<^verbatim>\<open>opgee/mcs/simulation.py\<close> function by function.
  Exceptions are values of type \<open>error\<close> (class and message); a function that can
  raise returns \<open>error + 'a\<close>, and a function that also mutates the simulation or the
  file system returns the mutated state next to its result. Floats are read as reals:
  the code only compares them for equality and hands them on.
\<close>

subsection \<open>Exceptions\<close>

datatype error =
    McsUserError string
  | McsSystemError string
  | CommandlineError string
  | OpgeeException string
  | TypeError string
  | Raised string

text \<open>\<open>str(e)\<close>: the message of an exception.\<close>

fun str_error :: "error \<Rightarrow> string" where
  "str_error (McsUserError m) = m"
| "str_error (McsSystemError m) = m"
| "str_error (CommandlineError m) = m"
| "str_error (OpgeeException m) = m"
| "str_error (TypeError m) = m"
| "str_error (Raised m) = m"


subsection \<open>Strings\<close>

text \<open>\<open>str.split(sep)\<close> for a one-character separator.\<close>

fun split_on :: "char \<Rightarrow> string \<Rightarrow> string list" where
  "split_on c [] = [[]]"
| "split_on c (x # xs) =
     (if x = c then [] # split_on c xs
      else (case split_on c xs of
              [] \<Rightarrow> [[x]]
            | w # ws \<Rightarrow> (x # w) # ws))"

text \<open>\<open>str.lower()\<close> on ASCII letters.\<close>

definition lower_char :: "char \<Rightarrow> char" where
  "lower_char c =
     (let n = (of_char c :: nat)
      in if 65 \<le> n \<and> n \<le> 90 then char_of (n + 32) else c)"

definition lower :: "string \<Rightarrow> string" where
  "lower s = map lower_char s"

text \<open>
  Modelled from the spec: \<^verbatim>\<open>split_attr_name\<close> lives in \<^verbatim>\<open>opgee/core.py\<close>, which is
  not among the sources. The spec gives a distribution a two-part name, an optional
  owning class and an attribute, and \<^verbatim>\<open>Distribution.__init__\<close> reports the accepted
  formats as \<^verbatim>\<open>'ATTR'\<close> and \<^verbatim>\<open>'CLASS.ATTR'\<close>; anything else raises
  \<^verbatim>\<open>OpgeeException\<close>.
\<close>

definition split_attr_name :: "string \<Rightarrow> error + (string option \<times> string)" where
  "split_attr_name attr_name =
     (case split_on (CHR ''.'') attr_name of
        [a] \<Rightarrow> Inr (None, a)
      | [c, a] \<Rightarrow> Inr (Some c, a)
      | _ \<Rightarrow> Inl (OpgeeException (''Invalid attribute name: '' @ attr_name)))"

subsection \<open>The distribution registry\<close>

text \<open>
  A cell of the distributions table after \<^verbatim>\<open>fillna('')\<close>: a number or a string,
  the empty string where the CSV had nothing. Python's \<open>==\<close> on two cells is equality
  of these values.
\<close>

datatype cell = Num real | Str string

text \<open>
  \<^verbatim>\<open>get_frozen_rv(kind, **kwargs)\<close> (\<^verbatim>\<open>opgee/mcs/distro.py\<close>) is an external capability:
  it builds the frozen random variable or raises, and is a parameter of the functions
  that call it. A frozen random variable is kept as the kind and keyword arguments it
  was built from.
\<close>

datatype rv = Frozen string "(string \<times> cell) list"

type_synonym rv_builder = "string \<Rightarrow> (string \<times> cell) list \<Rightarrow> error + rv"

record Distribution =
  full_name :: string
  class_name :: "string option"
  attr_name :: string
  rv :: rv

text \<open>
  \<^verbatim>\<open>Distribution.instances\<close>, a class-level dict. A Python dict keeps insertion order
  and an assignment to an existing key keeps the key's place, which is what
  \<open>AList.update\<close> does.
\<close>

type_synonym registry = "(string \<times> Distribution) list"

text \<open>\<^verbatim>\<open>Distribution.__init__\<close>: returns the new instance and the registry holding it.\<close>

definition Distribution_init ::
  "registry \<Rightarrow> string \<Rightarrow> rv \<Rightarrow> error + (Distribution \<times> registry)" where
  "Distribution_init instances fname r =
     (case split_attr_name fname of
        Inl e \<Rightarrow>
          Inl (McsUserError
            (''attribute name format is 'ATTR' (same as 'Field.ATTR) or 'CLASS.ATTR'; got ''
              @ [CHR 0x27] @ fname @ [CHR 0x27]))
      | Inr (c, a) \<Rightarrow>
          (let self = \<lparr>full_name = fname, class_name = c, attr_name = a, rv = r\<rparr>
           in Inr (self, AList.update fname self instances)))"

definition distro_by_name :: "registry \<Rightarrow> string \<Rightarrow> Distribution option" where
  "distro_by_name instances n = map_of instances n"

definition distributions :: "registry \<Rightarrow> Distribution list" where
  "distributions instances = map snd instances"

text \<open>
  A sequence of registrations, each a call of the constructor; it stops at the first
  constructor that raises, as the caller's control flow would.
\<close>

fun register_all :: "registry \<Rightarrow> (string \<times> rv) list \<Rightarrow> error + registry" where
  "register_all instances [] = Inr instances"
| "register_all instances ((n, r) # rest) =
     (case Distribution_init instances n r of
        Inl e \<Rightarrow> Inl e
      | Inr (d, instances') \<Rightarrow> register_all instances' rest)"

text \<open>The instance most recently registered under a name, if any.\<close>

fun last_registered :: "(string \<times> rv) list \<Rightarrow> string \<Rightarrow> rv option" where
  "last_registered [] n = None"
| "last_registered ((k, r) # rest) n =
     (case last_registered rest n of
        Some r' \<Rightarrow> Some r'
      | None \<Rightarrow> (if k = n then Some r else None))"

subsection \<open>Reading the distributions table\<close>

record row =
  distribution_type :: string
  variable_name :: string
  low_bound :: cell
  high_bound :: cell
  mean :: cell
  SD :: cell
  default_value :: cell
  prob_of_yes :: cell
  pathname :: cell

datatype row_action = Continue | Build string "(string \<times> cell) list" | Raise error

text \<open>
  The body of the loop of \<^verbatim>\<open>read_distributions\<close> up to the call of
  \<^verbatim>\<open>get_frozen_rv\<close>: which rows are passed over (\<^verbatim>\<open>continue\<close>), which raise, and
  for the others the call \<^verbatim>\<open>get_frozen_rv(kind, **kwargs)\<close> the row makes, with the
  cells as the row has them.
\<close>

definition row_action :: "row \<Rightarrow> row_action" where
  "row_action r =
     (let shape = lower (distribution_type r);
          name = variable_name r;
          low = low_bound r;
          high = high_bound r;
          stdev = SD r;
          default = default_value r
      in
      if name = '''' then Continue
      else if low = Str '''' \<and> high = Str '''' \<and> mean r = Str ''''
              \<and> prob_of_yes r = Str '''' \<and> shape \<noteq> ''empirical'' then Continue
      else if shape = ''binary'' then
        (if prob_of_yes r = Num 0 \<or> prob_of_yes r = Num 1 then Continue
         else Build ''weighted_binary''
                [(''prob_of_one'',
                  if prob_of_yes r = Str '''' then Num 0.5 else prob_of_yes r)])
      else if shape = ''uniform'' then
        (if low = high then Continue
         else Build ''uniform'' [(''min'', low), (''max'', high)])
      else if shape = ''triangular'' then
        (if low = high then Continue
         else Build ''triangle'' [(''min'', low), (''mode'', default), (''max'', high)])
      else if shape = ''normal'' then
        (if stdev = Num 0 then Continue
         else if low = Str '''' \<or> high = Str '''' then
           Build ''normal'' [(''mean'', mean r), (''stdev'', stdev)]
         else
           Build ''truncated_normal''
             [(''mean'', mean r), (''stdev'', stdev), (''low'', low), (''high'', high)])
      else if shape = ''lognormal'' then
        (if stdev = Num 0 then Continue
         else if low = Str '''' \<or> high = Str '''' then
           Build ''lognormal'' [(''logmean'', mean r), (''logstdev'', stdev)]
         else
           Build ''truncated_lognormal''
             [(''logmean'', mean r), (''logstdev'', stdev), (''low'', low), (''high'', high)])
      else if shape = ''empirical'' then
        Build ''empirical'' [(''pathname'', pathname r), (''colname'', Str name)]
      else
        Raise (McsSystemError
          (''Unknown distribution shape: '' @ [CHR 0x27] @ shape @ [CHR 0x27])))"

text \<open>
  One iteration: the exception raised, if any, and the registry afterwards. An exception
  of \<^verbatim>\<open>get_frozen_rv\<close> is not caught, so the row is not registered.
\<close>

definition read_row :: "rv_builder \<Rightarrow> registry \<Rightarrow> row \<Rightarrow> error option \<times> registry" where
  "read_row get_frozen_rv instances r =
     (case row_action r of
        Continue \<Rightarrow> (None, instances)
      | Raise e \<Rightarrow> (Some e, instances)
      | Build kind kwargs \<Rightarrow>
          (case get_frozen_rv kind kwargs of
             Inl e \<Rightarrow> (Some e, instances)
           | Inr x \<Rightarrow>
               (case Distribution_init instances (variable_name r) x of
                  Inl e \<Rightarrow> (Some e, instances)
                | Inr (d, instances') \<Rightarrow> (None, instances'))))"

text \<open>
  \<^verbatim>\<open>read_distributions\<close> over the rows of the parsed table: an exception leaves the
  loop, the registrations made before it stay.
\<close>

fun read_distributions :: "rv_builder \<Rightarrow> registry \<Rightarrow> row list \<Rightarrow> error option \<times> registry" where
  "read_distributions get_frozen_rv instances [] = (None, instances)"
| "read_distributions get_frozen_rv instances (r # rs) =
     (case read_row get_frozen_rv instances r of
        (Some e, instances') \<Rightarrow> (Some e, instances')
      | (None, instances') \<Rightarrow> read_distributions get_frozen_rv instances' rs)"




text \<open>
  Registrations come from code (a call of the constructor) and from tables (a call of
  \<^verbatim>\<open>read_distributions\<close>), in the order the caller chooses. A run stops at the first
  exception.
\<close>

datatype registration = Register string rv | ReadCsv "row list"

fun run_registrations ::
  "rv_builder \<Rightarrow> registry \<Rightarrow> registration list \<Rightarrow> error option \<times> registry" where
  "run_registrations get_frozen_rv instances [] = (None, instances)"
| "run_registrations get_frozen_rv instances (Register n r # rest) =
     (case Distribution_init instances n r of
        Inl e \<Rightarrow> (Some e, instances)
      | Inr (d, instances') \<Rightarrow> run_registrations get_frozen_rv instances' rest)"
| "run_registrations get_frozen_rv instances (ReadCsv rows # rest) =
     (case read_distributions get_frozen_rv instances rows of
        (Some e, instances') \<Rightarrow> (Some e, instances')
      | (None, instances') \<Rightarrow> run_registrations get_frozen_rv instances' rest)"

text \<open>The constructor calls a table makes, and those of a whole run, in order.\<close>

fun built_rows :: "rv_builder \<Rightarrow> row list \<Rightarrow> (string \<times> rv) list" where
  "built_rows get_frozen_rv [] = []"
| "built_rows get_frozen_rv (r # rs) =
     (case row_action r of
        Build kind kwargs \<Rightarrow>
          (case get_frozen_rv kind kwargs of
             Inr x \<Rightarrow> (variable_name r, x) # built_rows get_frozen_rv rs
           | Inl e \<Rightarrow> built_rows get_frozen_rv rs)
      | _ \<Rightarrow> built_rows get_frozen_rv rs)"

fun registered :: "rv_builder \<Rightarrow> registration list \<Rightarrow> (string \<times> rv) list" where
  "registered get_frozen_rv [] = []"
| "registered get_frozen_rv (Register n r # rest) = (n, r) # registered get_frozen_rv rest"
| "registered get_frozen_rv (ReadCsv rows # rest) =
     built_rows get_frozen_rv rows @ registered get_frozen_rv rest"

text \<open>
  A stand-in for \<^verbatim>\<open>get_frozen_rv\<close> that raises when a keyword argument is the empty
  string, as the real one may on a parameter that is missing.
\<close>

definition demo_get_frozen_rv :: rv_builder where
  "demo_get_frozen_rv kind kwargs =
     (if Str '''' \<in> set (map snd kwargs)
      then Inl (Raised (''could not convert string to float: '' @ [CHR 0x27, CHR 0x27]))
      else Inr (Frozen kind kwargs))"

text \<open>A row with the given shape, name and bounds, every other cell empty.\<close>

definition bounds_row :: "string \<Rightarrow> string \<Rightarrow> cell \<Rightarrow> cell \<Rightarrow> row" where
  "bounds_row shape n lo hi =
     \<lparr>distribution_type = shape, variable_name = n, low_bound = lo, high_bound = hi,
      mean = Str '''', SD = Str '''', default_value = Str '''', prob_of_yes = Str '''',
      pathname = Str ''''\<rparr>"

subsection \<open>The model graph\<close>

text \<open>
  The classes of the model graph (\<^verbatim>\<open>opgee/field.py\<close>, \<^verbatim>\<open>opgee/analysis.py\<close>,
  \<^verbatim>\<open>opgee/attributes.py\<close>) are external to the driver. The embedding keeps what the
  driver reads and writes: attributes with their \<^verbatim>\<open>explicit\<close> flag, the processes of a
  field by class name, the carbon intensity and the GHG row of the emissions of a field.
  The dicts of a model are keyed by the name of the object they hold, so they are lists
  of objects searched by name.
\<close>

record Attr =
  explicit :: bool
  attr_value :: cell

type_synonym attr_dict = "(string \<times> Attr) list"

record Process =
  proc_class :: string
  proc_attr_dict :: attr_dict

record GHG =
  Combustion :: real
  Land_use :: real
  Venting :: real
  Flaring :: real
  Fugitives :: real
  Other :: real

record Field =
  field_name :: string
  field_attr_dict :: attr_dict
  field_processes :: "Process list"
  field_enabled :: bool
  carbon_intensity :: real
  emissions :: GHG

record Analysis =
  ana_name :: string
  ana_attr_dict :: attr_dict
  ana_field_names :: "string list"

record Model =
  field_dict :: "Field list"
  analysis_dict :: "Analysis list"

definition quoted :: "string \<Rightarrow> string" where
  "quoted s = [CHR 0x27] @ s @ [CHR 0x27]"

text \<open>\<open>str\<close> of a value that may be \<^verbatim>\<open>None\<close>.\<close>

definition str_opt :: "string option \<Rightarrow> string" where
  "str_opt x = (case x of None \<Rightarrow> ''None'' | Some s \<Rightarrow> s)"

text \<open>\<^verbatim>\<open>Model.get_analysis\<close> and \<^verbatim>\<open>Model.get_field\<close> (\<^verbatim>\<open>opgee/model.py\<close>).\<close>

definition get_analysis :: "Model \<Rightarrow> string option \<Rightarrow> bool \<Rightarrow> error + Analysis option" where
  "get_analysis self name raiseError =
     (let analysis = (case name of
                        None \<Rightarrow> None
                      | Some n \<Rightarrow> find (\<lambda>a. ana_name a = n) (analysis_dict self))
      in if analysis = None \<and> raiseError
         then Inl (OpgeeException (''Analysis named '' @ quoted (str_opt name) @ '' is not defined''))
         else Inr analysis)"

definition get_field :: "Model \<Rightarrow> string \<Rightarrow> bool \<Rightarrow> error + Field option" where
  "get_field self name raiseError =
     (let field = find (\<lambda>f. field_name f = name) (field_dict self)
      in if field = None \<and> raiseError
         then Inl (OpgeeException (''Field named '' @ quoted name @ '' is not defined in Model''))
         else Inr field)"

text \<open>
  Modelled from the spec: \<^verbatim>\<open>Analysis.get_field\<close>, \<^verbatim>\<open>Analysis.fields\<close>,
  \<^verbatim>\<open>Analysis.field_names\<close> and \<^verbatim>\<open>Field.find_process\<close> are not among the sources. The
  spec has the runner re-resolve the subject by name within the freshly instantiated
  model and fail when a name does not resolve; an analysis names the fields it covers
  and the fields themselves are those of the model.
\<close>

definition Analysis_get_field :: "Model \<Rightarrow> Analysis \<Rightarrow> string \<Rightarrow> error + Field" where
  "Analysis_get_field m a name =
     (if name \<in> set (ana_field_names a)
      then (case find (\<lambda>f. field_name f = name) (field_dict m) of
              Some f \<Rightarrow> Inr f
            | None \<Rightarrow> Inl (OpgeeException
                (''Field named '' @ quoted name @ '' is not defined in Analysis '' @ quoted (ana_name a))))
      else Inl (OpgeeException
             (''Field named '' @ quoted name @ '' is not defined in Analysis '' @ quoted (ana_name a))))"

definition Analysis_fields :: "Model \<Rightarrow> Analysis \<Rightarrow> Field list" where
  "Analysis_fields m a =
     List.map_filter (\<lambda>n. find (\<lambda>f. field_name f = n) (field_dict m)) (ana_field_names a)"

definition Analysis_field_names :: "Model \<Rightarrow> Analysis \<Rightarrow> bool \<Rightarrow> string list" where
  "Analysis_field_names m a enabled_only =
     map field_name (filter (\<lambda>f. \<not> enabled_only \<or> field_enabled f) (Analysis_fields m a))"

definition find_process :: "Field \<Rightarrow> string \<Rightarrow> Process option" where
  "find_process field cls = find (\<lambda>p. proc_class p = cls) (field_processes field)"

text \<open>
  Python mutates the objects of the graph in place. The embedding has values, so a
  changed field or analysis is put back into the model under its name.
\<close>

definition put_field :: "Field \<Rightarrow> Model \<Rightarrow> Model" where
  "put_field f m =
     m\<lparr>field_dict := map (\<lambda>g. if field_name g = field_name f then f else g) (field_dict m)\<rparr>"

definition put_analysis :: "Analysis \<Rightarrow> Model \<Rightarrow> Model" where
  "put_analysis a m =
     m\<lparr>analysis_dict := map (\<lambda>b. if ana_name b = ana_name a then a else b) (analysis_dict m)\<rparr>"

subsection \<open>The file system\<close>

text \<open>
  Paths are strings and the file system maps a path to a directory or to the text of a
  file. Reading fails where there is no file. \<^verbatim>\<open>pathjoin\<close>, \<^verbatim>\<open>mkdirs\<close> and
  \<^verbatim>\<open>removeTree\<close> (\<^verbatim>\<open>opgee/config.py\<close>, \<^verbatim>\<open>opgee/utils.py\<close>) are not among the sources:
  joining puts a slash between the parts, \<^verbatim>\<open>mkdirs\<close> makes the directory unless the
  path exists, \<^verbatim>\<open>removeTree\<close> removes the path and everything below it. Writing a
  file stores its text; failures of the operating system while writing are outside the
  embedding.
\<close>

datatype node = Dir | File string

type_synonym fs = "string \<Rightarrow> node option"

definition pathjoin :: "string \<Rightarrow> string \<Rightarrow> string" where
  "pathjoin a b = a @ ''/'' @ b"

definition isdir :: "fs \<Rightarrow> string \<Rightarrow> bool" where
  "isdir files p \<longleftrightarrow> files p = Some Dir"

definition lexists :: "fs \<Rightarrow> string \<Rightarrow> bool" where
  "lexists files p \<longleftrightarrow> files p \<noteq> None"

definition below :: "string \<Rightarrow> string \<Rightarrow> bool" where
  "below d p \<longleftrightarrow> p = d \<or> take (Suc (length d)) p = d @ ''/''"

definition mkdirs :: "fs \<Rightarrow> string \<Rightarrow> fs" where
  "mkdirs files d = (if files d = None then files(d \<mapsto> Dir) else files)"

definition removeTree :: "fs \<Rightarrow> string \<Rightarrow> fs" where
  "removeTree files d = (\<lambda>p. if below d p then None else files p)"

definition read_file :: "fs \<Rightarrow> string \<Rightarrow> error + string" where
  "read_file files p =
     (case files p of
        Some (File text) \<Rightarrow> Inr text
      | _ \<Rightarrow> Inl (Raised (''No such file: '' @ quoted p)))"

definition write_file :: "fs \<Rightarrow> string \<Rightarrow> string \<Rightarrow> fs" where
  "write_file files p text = files(p \<mapsto> File text)"

definition TRIAL_DATA_CSV :: string where "TRIAL_DATA_CSV = ''trial_data.csv''"
definition RESULTS_CSV :: string where "RESULTS_CSV = ''results.csv''"
definition FAILURES_CSV :: string where "FAILURES_CSV = ''failures.csv''"
definition MODEL_FILE :: string where "MODEL_FILE = ''merged_model.xml''"
definition META_DATA_FILE :: string where "META_DATA_FILE = ''metadata.json''"
definition DEFAULT_DIGITS :: nat where "DEFAULT_DIGITS = 3"

definition model_file_path :: "string \<Rightarrow> string" where
  "model_file_path sim_dir = pathjoin sim_dir MODEL_FILE"

subsection \<open>Tables, metadata and the external capabilities\<close>

text \<open>
  The trial-data table: the column labels and, for every index value (the trial number),
  the values of the row.
\<close>

record DataFrame =
  df_columns :: "string list"
  df_index_name :: "string option"
  df_rows :: "(int \<times> real list) list"

record metadata =
  md_analysis_name :: "string option"
  md_trials :: int
  md_field_names :: "string list option"

record mf_args =
  mf_pathnames :: "string list"
  mf_xml_string :: "string option"
  mf_use_default_model :: bool
  mf_analysis_names :: "string option list option"
  mf_field_names :: "string list option"
  mf_save_to_path :: "string option"

text \<open>
  What the driver calls and does not define: building a model from XML (\<^verbatim>\<open>ModelFile\<close>,
  which yields the model and the text of the merged model), Latin Hypercube Sampling
  (\<^verbatim>\<open>lhs\<close>), the CSV and JSON codecs, the evaluator \<^verbatim>\<open>Field.run\<close> (which raises
  or exposes a carbon intensity and the GHG row of the emissions), Python's \<^verbatim>\<open>round\<close>
  and the text of a float. They are parameters of the embedding.
\<close>

record env =
  ModelFile :: "fs \<Rightarrow> mf_args \<Rightarrow> error + (Model \<times> string)"
  lhs :: "rv list \<Rightarrow> int \<Rightarrow> string list \<Rightarrow> real list list option \<Rightarrow> error + DataFrame"
  read_csv :: "string \<Rightarrow> error + DataFrame"
  to_csv :: "DataFrame \<Rightarrow> string"
  json_load :: "string \<Rightarrow> error + metadata"
  json_dump :: "metadata \<Rightarrow> string"
  Field_run :: "Analysis \<Rightarrow> Field \<Rightarrow> int \<Rightarrow> error + (real \<times> GHG)"
  py_round :: "real \<Rightarrow> nat \<Rightarrow> real"
  repr_float :: "real \<Rightarrow> string"

text \<open>
  The constructor of \<^verbatim>\<open>ModelFile\<close> with its side effect: the merged model is written
  to \<^verbatim>\<open>save_to_path\<close> when one is given.
\<close>

definition ModelFile_new :: "env \<Rightarrow> fs \<Rightarrow> mf_args \<Rightarrow> (error + Model) \<times> fs" where
  "ModelFile_new env files args =
     (case ModelFile env files args of
        Inl e \<Rightarrow> (Inl e, files)
      | Inr (m, xml) \<Rightarrow>
          (Inr m, case mf_save_to_path args of
                    None \<Rightarrow> files
                  | Some p \<Rightarrow> write_file files p xml))"

subsection \<open>The simulation\<close>

text \<open>
  The attributes of a \<^verbatim>\<open>Simulation\<close>. \<^verbatim>\<open>self.analysis\<close> is an object of
  \<^verbatim>\<open>self.model\<close>, set together with it by \<^verbatim>\<open>load_model\<close>; the embedding reads it from
  the model.
\<close>

record Simulation =
  sim_pathname :: string
  model_file :: string
  model :: "Model option"
  model_xml_string :: "string option"
  trial_data_df :: "DataFrame option"
  trials :: int
  analysis_name :: "string option"
  field_names :: "string list option"
  metadata :: "metadata option"

definition analysis :: "Simulation \<Rightarrow> Analysis option" where
  "analysis self =
     (case model self of
        None \<Rightarrow> None
      | Some m \<Rightarrow> (case get_analysis m (analysis_name self) False of
                     Inl e \<Rightarrow> None
                   | Inr a \<Rightarrow> a))"

text \<open>The truth value Python gives a string or a list that may be \<^verbatim>\<open>None\<close>.\<close>

definition truthy :: "'a list option \<Rightarrow> bool" where
  "truthy x \<longleftrightarrow> (case x of None \<Rightarrow> False | Some l \<Rightarrow> l \<noteq> [])"

definition field_dir :: "Simulation \<Rightarrow> Field \<Rightarrow> string" where
  "field_dir self field = pathjoin (sim_pathname self) (field_name field)"

definition trial_data_path :: "Simulation \<Rightarrow> Field \<Rightarrow> bool \<Rightarrow> fs \<Rightarrow> string \<times> fs" where
  "trial_data_path self field mkdir files =
     (let d = field_dir self field
      in (pathjoin d TRIAL_DATA_CSV, if mkdir then mkdirs files d else files))"

definition results_path :: "Simulation \<Rightarrow> Field \<Rightarrow> bool \<Rightarrow> fs \<Rightarrow> string \<times> fs" where
  "results_path self field mkdir files =
     (let d = field_dir self field
      in (pathjoin d RESULTS_CSV, if mkdir then mkdirs files d else files))"

definition failures_path :: "Simulation \<Rightarrow> Field \<Rightarrow> string" where
  "failures_path self field = pathjoin (field_dir self field) FAILURES_CSV"

definition metadata_path :: "Simulation \<Rightarrow> string" where
  "metadata_path self = pathjoin (sim_pathname self) META_DATA_FILE"

text \<open>\<^verbatim>\<open>Simulation.load_model\<close>.\<close>

definition load_model ::
  "env \<Rightarrow> fs \<Rightarrow> Simulation \<Rightarrow> string option \<Rightarrow> (error + unit) \<times> Simulation \<times> fs" where
  "load_model env files self save_to_path =
     (case ModelFile_new env files
             \<lparr>mf_pathnames = [model_file self],
              mf_xml_string = model_xml_string self,
              mf_use_default_model = False,
              mf_analysis_names = Some [analysis_name self],
              mf_field_names = field_names self,
              mf_save_to_path = save_to_path\<rparr> of
        (Inl e, files') \<Rightarrow> (Inl e, self, files')
      | (Inr m, files') \<Rightarrow>
          (let self' = self\<lparr>model := Some m\<rparr>
           in if analysis self' = None
              then (Inl (CommandlineError
                      (''Analysis '' @ quoted (str_opt (analysis_name self)) @ '' was not found in model'')),
                    self', files')
              else (Inr (), self', files')))"

text \<open>\<^verbatim>\<open>Simulation._save_meta_data\<close> and \<^verbatim>\<open>Simulation._load_meta_data\<close>.\<close>

definition save_meta_data :: "env \<Rightarrow> fs \<Rightarrow> Simulation \<Rightarrow> Simulation \<times> fs" where
  "save_meta_data env files self =
     (let md = \<lparr>md_analysis_name = analysis_name self,
                md_trials = trials self,
                md_field_names = field_names self\<rparr>;
          self' = self\<lparr>metadata := Some md\<rparr>
      in (self', write_file files (metadata_path self') (json_dump env md)))"

definition load_meta_data ::
  "env \<Rightarrow> fs \<Rightarrow> Simulation \<Rightarrow> string list option \<Rightarrow> (error + unit) \<times> Simulation" where
  "load_meta_data env files self fnames =
     (let metadata_path = metadata_path self
      in case (case read_file files metadata_path of
                 Inl e \<Rightarrow> Inl e
               | Inr text \<Rightarrow> json_load env text) of
           Inl e \<Rightarrow>
             (Inl (McsUserError (''Failed to load simulation '' @ quoted metadata_path
                      @ '' : '' @ str_error e)), self)
         | Inr md \<Rightarrow>
             (let self1 = self\<lparr>metadata := Some md\<rparr>
              in if truthy fnames then
                   (case md_field_names md of
                      None \<Rightarrow> (Inl (TypeError (quoted ''NoneType'' @ '' object is not iterable'')), self1)
                    | Some md_names \<Rightarrow>
                        (Inr (), self1\<lparr>field_names :=
                                         Some (filter (\<lambda>name. name \<in> set (the fnames)) md_names),
                                       analysis_name := md_analysis_name md,
                                       trials := md_trials md\<rparr>))
                 else
                   (Inr (), self1\<lparr>field_names := md_field_names md,
                                  analysis_name := md_analysis_name md,
                                  trials := md_trials md\<rparr>)))"

text \<open>\<^verbatim>\<open>Simulation.chosen_fields\<close>.\<close>

fun get_fields :: "Model \<Rightarrow> Analysis \<Rightarrow> string list \<Rightarrow> error + Field list" where
  "get_fields m a [] = Inr []"
| "get_fields m a (name # names) =
     (case Analysis_get_field m a name of
        Inl e \<Rightarrow> Inl e
      | Inr f \<Rightarrow> (case get_fields m a names of
                    Inl e \<Rightarrow> Inl e
                  | Inr fs \<Rightarrow> Inr (f # fs)))"

definition chosen_fields :: "Simulation \<Rightarrow> error + Field list" where
  "chosen_fields self =
     (case (model self, analysis self) of
        (Some m, Some a) \<Rightarrow>
          (if truthy (field_names self) then get_fields m a (the (field_names self))
           else Inr (Analysis_fields m a))
      | _ \<Rightarrow> Inl (Raised (''AttributeError: 'NoneType' object has no attribute '' @ quoted ''get_field'')))"

text \<open>
  \<^verbatim>\<open>Simulation.lookup\<close>. The method reads \<^verbatim>\<open>self.analysis\<close> and the field; it yields
  the attribute together with the object that owns it, so that a caller can write it.
  In the messages an object is rendered by its name.
\<close>

datatype owner = FieldObj | AnalysisObj | ProcessObj string

definition lookup :: "Analysis option \<Rightarrow> string \<Rightarrow> Field \<Rightarrow> error + (owner \<times> string \<times> Attr)" where
  "lookup a fname field =
     (case split_attr_name fname of
        Inl e \<Rightarrow> Inl e
      | Inr (cls, attr) \<Rightarrow>
          (case (if cls = None \<or> cls = Some ''Field'' then
                   Inr (FieldObj, field_attr_dict field, field_name field)
                 else if cls = Some ''Analysis'' then
                   (case a of
                      None \<Rightarrow> Inl (Raised (''AttributeError: 'NoneType' object has no attribute ''
                                @ quoted ''attr_dict''))
                    | Some an \<Rightarrow> Inr (AnalysisObj, ana_attr_dict an, ana_name an))
                 else
                   (case find_process field (the cls) of
                      None \<Rightarrow> Inl (McsUserError
                        (''A process of class '' @ quoted (the cls) @ '' was not found in ''
                           @ field_name field))
                    | Some p \<Rightarrow> Inr (ProcessObj (the cls), proc_attr_dict p, proc_class p))) of
             Inl e \<Rightarrow> Inl e
           | Inr (obj, attrs, obj_name) \<Rightarrow>
               (case map_of attrs attr of
                  None \<Rightarrow> Inl (McsUserError
                    (''The attribute '' @ quoted attr @ '' was not found in '' @ quoted obj_name))
                | Some attr_obj \<Rightarrow> Inr (obj, attr, attr_obj))))"

text \<open>The column a distribution gets in the trial-data table.\<close>

definition column_name :: "Distribution \<Rightarrow> string" where
  "column_name distr =
     (if class_name distr = Some ''Field'' then attr_name distr else full_name distr)"

text \<open>
  The inner loop of \<^verbatim>\<open>Simulation.generate\<close>: the random variables and the columns of
  the distributions whose target has no explicit value, in registry order.
\<close>

fun collect :: "Analysis option \<Rightarrow> Field \<Rightarrow> Distribution list \<Rightarrow> error + (rv list \<times> string list)" where
  "collect a field [] = Inr ([], [])"
| "collect a field (distr # rest) =
     (case lookup a (full_name distr) field of
        Inl e \<Rightarrow> Inl e
      | Inr (obj, attr, target_attr) \<Rightarrow>
          (case collect a field rest of
             Inl e \<Rightarrow> Inl e
           | Inr (rv_list, cols) \<Rightarrow>
               (if explicit target_attr then Inr (rv_list, cols)
                else Inr (rv distr # rv_list, column_name distr # cols))))"

text \<open>\<^verbatim>\<open>Simulation.save_trial_data\<close>.\<close>

definition save_trial_data :: "env \<Rightarrow> fs \<Rightarrow> Simulation \<Rightarrow> Field \<Rightarrow> fs" where
  "save_trial_data env files self field =
     (case trial_data_path self field True files of
        (filename, files') \<Rightarrow>
          (case trial_data_df self of
             None \<Rightarrow> files'
           | Some df \<Rightarrow> write_file files' filename (to_csv env df)))"

text \<open>The body of the loop of \<^verbatim>\<open>Simulation.generate\<close> over the fields, and the loop.\<close>

definition generate_field ::
  "env \<Rightarrow> registry \<Rightarrow> real list list option \<Rightarrow> fs \<Rightarrow> Simulation \<Rightarrow> Field
     \<Rightarrow> (error + unit) \<times> Simulation \<times> fs" where
  "generate_field env instances corr_mat files self field =
     (case collect (analysis self) field (distributions instances) of
        Inl e \<Rightarrow> (Inl e, self, files)
      | Inr (rv_list, cols) \<Rightarrow>
          (if cols = [] then
             (Inl (McsUserError
                (''Can't run MCS: all parameters with distributions have explicit values in ''
                   @ field_name field @ ''.'')), self, files)
           else
             (case lhs env rv_list (trials self) cols corr_mat of
                Inl e \<Rightarrow> (Inl e, self, files)
              | Inr df \<Rightarrow>
                  (let self' = self\<lparr>trial_data_df := Some (df\<lparr>df_index_name := Some ''trial_num''\<rparr>)\<rparr>
                   in (Inr (), self', save_trial_data env files self' field)))))"

fun generate_loop ::
  "env \<Rightarrow> registry \<Rightarrow> real list list option \<Rightarrow> fs \<Rightarrow> Simulation \<Rightarrow> Field list
     \<Rightarrow> (error + unit) \<times> Simulation \<times> fs" where
  "generate_loop env instances corr_mat files self [] = (Inr (), self, files)"
| "generate_loop env instances corr_mat files self (field # rest) =
     (case generate_field env instances corr_mat files self field of
        (Inl e, self', files') \<Rightarrow> (Inl e, self', files')
      | (Inr u, self', files') \<Rightarrow> generate_loop env instances corr_mat files' self' rest)"

definition generate ::
  "env \<Rightarrow> registry \<Rightarrow> fs \<Rightarrow> Simulation \<Rightarrow> real list list option
     \<Rightarrow> (error + unit) \<times> Simulation \<times> fs" where
  "generate env instances files self corr_mat =
     (case chosen_fields self of
        Inl e \<Rightarrow> (Inl e, self, files)
      | Inr chosen \<Rightarrow> generate_loop env instances corr_mat files self chosen)"

subsection \<open>Trial data\<close>

text \<open>\<open>str\<close> of an integer.\<close>

fun str_nat :: "nat \<Rightarrow> string" where
  "str_nat n =
     (if n < 10 then [char_of (48 + n)]
      else str_nat (n div 10) @ [char_of (48 + n mod 10)])"

definition str_int :: "int \<Rightarrow> string" where
  "str_int i = (if i < 0 then CHR ''-'' # str_nat (nat (- i)) else str_nat (nat i))"

text \<open>
  \<^verbatim>\<open>Simulation.field_trial_data\<close>. The argument is a field or the name of one.
\<close>

definition field_trial_data ::
  "env \<Rightarrow> fs \<Rightarrow> Simulation \<Rightarrow> string + Field \<Rightarrow> (error + DataFrame) \<times> Simulation" where
  "field_trial_data env files self field =
     (case (case field of
              Inr f \<Rightarrow> Inr f
            | Inl name \<Rightarrow>
                (case (model self, analysis self) of
                   (Some m, Some a) \<Rightarrow> Analysis_get_field m a name
                 | _ \<Rightarrow> Inl (Raised (''AttributeError: 'NoneType' object has no attribute '' @ quoted ''get_field'')))) of
        Inl e \<Rightarrow> (Inl e, self)
      | Inr f \<Rightarrow>
          (case trial_data_df self of
             Some df \<Rightarrow> (Inr df, self)
           | None \<Rightarrow>
               (let path = fst (trial_data_path self f False files)
                in if \<not> lexists files path then
                     (Inl (McsSystemError
                        (''Can't read trial data: '' @ quoted path @ '' doesn't exist.'')), self)
                   else
                     (case (case read_file files path of
                              Inl e \<Rightarrow> Inl e
                            | Inr text \<Rightarrow> read_csv env text) of
                        Inl e \<Rightarrow>
                          (Inl (McsSystemError
                             (''Can't read trial data from '' @ quoted path @ '': '' @ str_error e)),
                           self)
                      | Inr df \<Rightarrow> (Inr df, self\<lparr>trial_data_df := Some df\<rparr>)))))"

text \<open>
  \<^verbatim>\<open>Simulation.trial_data\<close>: the row of the trial as pairs of column and value. When
  the trial is missing the message needs the path of the field, which a name does not
  have.
\<close>

definition trial_data ::
  "env \<Rightarrow> fs \<Rightarrow> Simulation \<Rightarrow> string + Field \<Rightarrow> int
     \<Rightarrow> (error + (string \<times> real) list) \<times> Simulation" where
  "trial_data env files self field trial_num =
     (case field_trial_data env files self field of
        (Inl e, self') \<Rightarrow> (Inl e, self')
      | (Inr df, self') \<Rightarrow>
          (case map_of (df_rows df) trial_num of
             None \<Rightarrow>
               (case field of
                  Inl name \<Rightarrow> (Inl (Raised (''AttributeError: 'str' object has no attribute '' @ quoted ''name'')), self')
                | Inr f \<Rightarrow>
                    (Inl (McsSystemError
                       (''Trial '' @ str_int trial_num @ '' was not found in ''
                          @ quoted (fst (trial_data_path self' f False files)))), self'))
           | Some vals \<Rightarrow> (Inr (zip (df_columns df) vals), self')))"

text \<open>
  \<^verbatim>\<open>Simulation.set_trial_data\<close>. The loop marks each target explicit and sets its
  value; the field and the analysis it has changed so far stay changed when a lookup
  raises.
\<close>

definition set_value :: "string \<Rightarrow> cell \<Rightarrow> attr_dict \<Rightarrow> attr_dict" where
  "set_value attr v attrs =
     (case map_of attrs attr of
        None \<Rightarrow> attrs
      | Some attr_obj \<Rightarrow> AList.update attr (attr_obj\<lparr>explicit := True, attr_value := v\<rparr>) attrs)"

fun update_process :: "string \<Rightarrow> (Process \<Rightarrow> Process) \<Rightarrow> Process list \<Rightarrow> Process list" where
  "update_process cls g [] = []"
| "update_process cls g (p # ps) =
     (if proc_class p = cls then g p # ps else p # update_process cls g ps)"

definition set_attr ::
  "owner \<Rightarrow> string \<Rightarrow> cell \<Rightarrow> Analysis option \<times> Field \<Rightarrow> Analysis option \<times> Field" where
  "set_attr obj attr v af =
     (case af of (a, f) \<Rightarrow>
        (case obj of
           FieldObj \<Rightarrow> (a, f\<lparr>field_attr_dict := set_value attr v (field_attr_dict f)\<rparr>)
         | AnalysisObj \<Rightarrow>
             (map_option (\<lambda>an. an\<lparr>ana_attr_dict := set_value attr v (ana_attr_dict an)\<rparr>) a, f)
         | ProcessObj cls \<Rightarrow>
             (a, f\<lparr>field_processes :=
                     update_process cls
                       (\<lambda>p. p\<lparr>proc_attr_dict := set_value attr v (proc_attr_dict p)\<rparr>)
                       (field_processes f)\<rparr>)))"

fun set_items ::
  "(string \<times> real) list \<Rightarrow> Analysis option \<times> Field \<Rightarrow> error option \<times> Analysis option \<times> Field" where
  "set_items [] af = (None, af)"
| "set_items ((name, v) # rest) af =
     (case lookup (fst af) name (snd af) of
        Inl e \<Rightarrow> (Some e, af)
      | Inr (obj, attr, attr_obj) \<Rightarrow> set_items rest (set_attr obj attr (Num v) af))"

definition put_back :: "Analysis option \<times> Field \<Rightarrow> Simulation \<Rightarrow> Simulation" where
  "put_back af self =
     self\<lparr>model :=
       map_option
         (\<lambda>m. put_field (snd af) (case fst af of None \<Rightarrow> m | Some a \<Rightarrow> put_analysis a m))
         (model self)\<rparr>"

definition set_trial_data ::
  "env \<Rightarrow> fs \<Rightarrow> Simulation \<Rightarrow> Field \<Rightarrow> int \<Rightarrow> error option \<times> Field \<times> Simulation" where
  "set_trial_data env files self field trial_num =
     (case trial_data env files self (Inr field) trial_num of
        (Inl e, self') \<Rightarrow> (Some e, field, self')
      | (Inr data, self') \<Rightarrow>
          (case set_items data (analysis self', field) of
             (err, af) \<Rightarrow> (err, snd af, put_back af self')))"

subsection \<open>Running the trials of a field\<close>

definition magnitude :: "env \<Rightarrow> real \<Rightarrow> real" where
  "magnitude env quantity = py_round env quantity DEFAULT_DIGITS"

text \<open>
  A row of the results: the trial number and the six rounded metrics, in the order of
  the columns.
\<close>

type_synonym result = "int \<times> real list"

definition result_tuple :: "env \<Rightarrow> int \<Rightarrow> Field \<Rightarrow> result" where
  "result_tuple env trial_num field =
     (let ci = carbon_intensity field;
          ghg = emissions field;
          total_ghg = Combustion ghg + Land_use ghg + Venting ghg + Flaring ghg
                        + Fugitives ghg + Other ghg;
          vff = Venting ghg + Flaring ghg + Fugitives ghg
      in (trial_num,
          [magnitude env ci,
           magnitude env total_ghg,
           magnitude env (Combustion ghg),
           magnitude env (Land_use ghg),
           magnitude env vff,
           magnitude env (Other ghg)]))"

text \<open>
  The \<^verbatim>\<open>try\<close> block of one trial of \<^verbatim>\<open>Simulation.run_field\<close>: the exception it
  raised, if any, the value of the variable \<^verbatim>\<open>field\<close> afterwards, the simulation and
  the files. The evaluator yields the carbon intensity and the emissions it has stored
  in the field.
\<close>

definition try_trial ::
  "env \<Rightarrow> fs \<Rightarrow> Simulation \<Rightarrow> Field \<Rightarrow> int \<Rightarrow> error option \<times> Field \<times> Simulation \<times> fs" where
  "try_trial env files self field trial_num =
     (case load_model env files self None of
        (Inl e, self1, files1) \<Rightarrow> (Some e, field, self1, files1)
      | (Inr u, self1, files1) \<Rightarrow>
          (case (model self1, analysis self1) of
             (Some m, Some a) \<Rightarrow>
               (case Analysis_get_field m a (field_name field) of
                  Inl e \<Rightarrow> (Some e, field, self1, files1)
                | Inr field1 \<Rightarrow>
                    (case set_trial_data env files1 self1 field1 trial_num of
                       (Some e, field2, self2) \<Rightarrow> (Some e, field2, self2, files1)
                     | (None, field2, self2) \<Rightarrow>
                         (case analysis self2 of
                            None \<Rightarrow>
                              (Some (Raised ''AttributeError: analysis is None''),
                               field2, self2, files1)
                          | Some a2 \<Rightarrow>
                              (case Field_run env a2 field2 trial_num of
                                 Inl e \<Rightarrow> (Some e, field2, self2, files1)
                               | Inr (ci, ghg) \<Rightarrow>
                                   (let field3 = field2\<lparr>carbon_intensity := ci, emissions := ghg\<rparr>
                                    in (None, field3, put_back (Some a2, field3) self2, files1))))))
           | _ \<Rightarrow>
               (Some (Raised ''AttributeError: analysis is None''), field, self1, files1)))"

text \<open>
  The loop over the trial numbers: a trial that raised goes to the failures, a trial
  that did not goes to the results and is counted.
\<close>

record run_state =
  rs_files :: fs
  rs_self :: Simulation
  rs_field :: Field
  completed :: nat
  results :: "result list"
  failures :: "(int \<times> error) list"

fun trial_loop :: "env \<Rightarrow> int list \<Rightarrow> run_state \<Rightarrow> run_state" where
  "trial_loop env [] st = st"
| "trial_loop env (trial_num # rest) st =
     (case try_trial env (rs_files st) (rs_self st) (rs_field st) trial_num of
        (Some e, field', self', files') \<Rightarrow>
          trial_loop env rest
            (st\<lparr>rs_files := files', rs_self := self', rs_field := field',
                failures := failures st @ [(trial_num, e)]\<rparr>)
      | (None, field', self', files') \<Rightarrow>
          trial_loop env rest
            (st\<lparr>rs_files := files', rs_self := self', rs_field := field',
                completed := completed st + 1,
                results := results st @ [result_tuple env trial_num field']\<rparr>))"

definition requested_trials :: "Simulation \<Rightarrow> int list option \<Rightarrow> int list" where
  "requested_trials self trial_nums =
     (case trial_nums of
        None \<Rightarrow> map int [0 ..< nat (trials self)]
      | Some nums \<Rightarrow> nums)"

definition run_trials :: "env \<Rightarrow> fs \<Rightarrow> Simulation \<Rightarrow> Field \<Rightarrow> int list option \<Rightarrow> run_state" where
  "run_trials env files self field trial_nums =
     trial_loop env (requested_trials self trial_nums)
       \<lparr>rs_files = files, rs_self = self, rs_field = field,
        completed = 0, results = [], failures = []\<rparr>"

text \<open>
  \<^verbatim>\<open>DataFrame.to_csv(filename, index=False)\<close> on the table built by
  \<^verbatim>\<open>DataFrame.from_records(results, columns=cols)\<close>: a line of the column labels, then
  a line for each record, the values separated by commas.
\<close>

fun join :: "string \<Rightarrow> string list \<Rightarrow> string" where
  "join sep [] = []"
| "join sep [x] = x"
| "join sep (x # y # ys) = x @ sep @ join sep (y # ys)"

definition newline :: string where
  "newline = [CHR 0x0A]"

definition record_line :: "env \<Rightarrow> result \<Rightarrow> string" where
  "record_line env r = join '','' (str_int (fst r) # map (repr_float env) (snd r)) @ newline"

definition records_to_csv :: "env \<Rightarrow> string list \<Rightarrow> result list \<Rightarrow> string" where
  "records_to_csv env cols records = join '','' cols @ newline @ concat (map (record_line env) records)"

definition failure_line :: "int \<times> error \<Rightarrow> string" where
  "failure_line f =
     (case f of (trial_num, msg) \<Rightarrow>
        str_int trial_num @ '','' @ [CHR 0x22] @ str_error msg @ [CHR 0x22] @ newline)"

text \<open>\<^verbatim>\<open>Simulation.save_trial_results\<close>.\<close>

definition save_trial_results ::
  "env \<Rightarrow> fs \<Rightarrow> Simulation \<Rightarrow> Field \<Rightarrow> string list \<times> result list \<Rightarrow> (int \<times> error) list \<Rightarrow> fs" where
  "save_trial_results env files self field df fails =
     (case results_path self field True files of
        (filename, files1) \<Rightarrow>
          (let files2 = write_file files1 filename (records_to_csv env (fst df) (snd df));
               failures_csv = failures_path self field
           in write_file files2 failures_csv
                (''trial_num,message'' @ newline @ concat (map failure_line fails))))"

text \<open>\<^verbatim>\<open>Simulation.run_field\<close>: the number of completed trials, the simulation, the files.\<close>

definition run_field ::
  "env \<Rightarrow> fs \<Rightarrow> Simulation \<Rightarrow> Field \<Rightarrow> int list option \<Rightarrow> nat \<times> Simulation \<times> fs" where
  "run_field env files self field trial_nums =
     (let st = run_trials env files self field trial_nums;
          cols = [''trial_num'', ''CI'', ''total_GHG'', ''combustion'', ''land_use'', ''VFF'', ''other''];
          df = (cols, results st)
      in (completed st, rs_self st,
          save_trial_results env (rs_files st) (rs_self st) (rs_field st) df (failures st)))"

subsection \<open>Creating and opening a simulation\<close>

text \<open>
  \<^verbatim>\<open>Simulation.__init__\<close>. The registry is the class-level dict of \<^verbatim>\<open>Distribution\<close>,
  which \<^verbatim>\<open>generate\<close> reads. An exception leaves no simulation, only the files written
  so far.
\<close>

definition Simulation_init ::
  "env \<Rightarrow> registry \<Rightarrow> fs \<Rightarrow> string \<Rightarrow> string option \<Rightarrow> int \<Rightarrow> string list option
     \<Rightarrow> string option \<Rightarrow> bool \<Rightarrow> (error + Simulation) \<times> fs" where
  "Simulation_init env instances files sim_dir aname ntrials fnames save_to_path meta_data_only =
     (if \<not> isdir files sim_dir then
        (Inl (McsUserError (''Simulation directory '' @ quoted sim_dir @ '' does not exist.'')),
         files)
      else
        (let self0 = \<lparr>sim_pathname = sim_dir, model_file = model_file_path sim_dir,
                      model = None, model_xml_string = None, trial_data_df = None,
                      trials = ntrials, analysis_name = aname, field_names = fnames,
                      metadata = None\<rparr>
         in case (if \<not> truthy aname then load_meta_data env files self0 fnames
                  else (Inr (), self0)) of
              (Inl e, self1) \<Rightarrow> (Inl e, files)
            | (Inr u, self1) \<Rightarrow>
                (if \<not> truthy aname \<and> meta_data_only then (Inr self1, files)
                 else
                   (case read_file files (model_file self1) of
                      Inl e \<Rightarrow>
                        (Inl (McsSystemError
                           (''Failed to read model file '' @ quoted (model_file self1)
                              @ '' to XML string: '' @ str_error e)), files)
                    | Inr text \<Rightarrow>
                        (let self2 = self1\<lparr>model_xml_string := Some text\<rparr>
                         in case (if truthy aname then save_meta_data env files self2
                                  else (self2, files)) of
                              (self3, files3) \<Rightarrow>
                                (if truthy aname \<and> meta_data_only then (Inr self3, files3)
                                 else
                                   (case load_model env files3 self3 save_to_path of
                                      (Inl e, self4, files4) \<Rightarrow> (Inl e, files4)
                                    | (Inr u, self4, files4) \<Rightarrow>
                                        (if ntrials > 0 then
                                           (case generate env instances files4 self4 None of
                                              (Inl e, self5, files5) \<Rightarrow> (Inl e, files5)
                                            | (Inr u, self5, files5) \<Rightarrow> (Inr self5, files5))
                                         else (Inr self4, files4)))))))))"

text \<open>\<^verbatim>\<open>Simulation.read_metadata\<close>.\<close>

definition read_metadata :: "env \<Rightarrow> registry \<Rightarrow> fs \<Rightarrow> string \<Rightarrow> error + metadata option" where
  "read_metadata env instances files sim_dir =
     (case fst (Simulation_init env instances files sim_dir None 0 None None True) of
        Inl e \<Rightarrow> Inl e
      | Inr sim \<Rightarrow> Inr (metadata sim))"

text \<open>\<^verbatim>\<open>Simulation.new\<close>.\<close>

definition new ::
  "env \<Rightarrow> registry \<Rightarrow> fs \<Rightarrow> string \<Rightarrow> string list \<Rightarrow> string \<Rightarrow> int \<Rightarrow> string list option
     \<Rightarrow> bool \<Rightarrow> bool \<Rightarrow> (error + Simulation) \<times> fs" where
  "new env instances files sim_dir model_files aname ntrials fnames overwrite use_default_model =
     (if lexists files sim_dir \<and> \<not> overwrite then
        (Inl (McsUserError
           (''Directory '' @ quoted sim_dir @ '' already exists. Use ''
              @ ''Simulation.new(sim_dir, overwrite=True) to replace it.'')), files)
      else
        (let files1 = (if lexists files sim_dir then removeTree files sim_dir else files);
             files2 = mkdirs files1 sim_dir;
             merged_model_file = model_file_path sim_dir
         in case ModelFile_new env files2
                   \<lparr>mf_pathnames = model_files, mf_xml_string = None,
                    mf_use_default_model = use_default_model, mf_analysis_names = None,
                    mf_field_names = None, mf_save_to_path = Some merged_model_file\<rparr> of
              (Inl e, files3) \<Rightarrow> (Inl e, files3)
            | (Inr m, files3) \<Rightarrow>
                (case get_analysis m (Some aname) False of
                   Inr (Some a) \<Rightarrow>
                     Simulation_init env instances files3 sim_dir (Some aname) ntrials
                       (Some (if truthy fnames then the fnames else Analysis_field_names m a True))
                       None False
                 | _ \<Rightarrow>
                     (Inl (McsUserError
                        (''Analysis '' @ quoted aname @ '' was not found in model'')), files3))))"

subsection \<open>A small simulation\<close>

text \<open>
  A model of two fields under one analysis, a table of three trials, and stand-ins for
  the external capabilities; the evaluator fails on trial 1. The properties below are
  instantiated on them.
\<close>

definition demo_field :: "string \<Rightarrow> bool \<Rightarrow> Field" where
  "demo_field n pinned =
     \<lparr>field_name = n,
      field_attr_dict = [(''WOR'', \<lparr>explicit = pinned, attr_value = Num 1\<rparr>),
                         (''API'', \<lparr>explicit = False, attr_value = Num 30\<rparr>)],
      field_processes = [],
      field_enabled = True,
      carbon_intensity = 0,
      emissions = \<lparr>Combustion = 0, Land_use = 0, Venting = 0, Flaring = 0,
                   Fugitives = 0, Other = 0\<rparr>\<rparr>"

definition demo_model :: Model where
  "demo_model =
     \<lparr>field_dict = [demo_field ''f1'' True, demo_field ''f2'' False],
      analysis_dict = [\<lparr>ana_name = ''a1'', ana_attr_dict = [],
                        ana_field_names = [''f1'', ''f2'']\<rparr>]\<rparr>"

definition demo_table :: DataFrame where
  "demo_table =
     \<lparr>df_columns = [''API''], df_index_name = Some ''trial_num'',
      df_rows = [(0, [10]), (1, [20]), (2, [30])]\<rparr>"

definition demo_metadata :: metadata where
  "demo_metadata =
     \<lparr>md_analysis_name = Some ''a1'', md_trials = 3, md_field_names = Some [''f1'', ''f2'']\<rparr>"

definition demo_env :: env where
  "demo_env =
     \<lparr>ModelFile = (\<lambda>files args. Inr (demo_model, ''<Model/>'')),
      lhs = (\<lambda>rvs n cols corr.
               Inr \<lparr>df_columns = cols, df_index_name = None,
                    df_rows = map (\<lambda>i. (int i, map (\<lambda>c. 0) cols)) [0 ..< nat n]\<rparr>),
      read_csv = (\<lambda>text. if text = ''table'' then Inr demo_table else Inl (Raised ''bad csv'')),
      to_csv = (\<lambda>df. ''table''),
      json_load = (\<lambda>text. if text = ''meta'' then Inr demo_metadata else Inl (Raised ''bad json'')),
      json_dump = (\<lambda>md. ''meta''),
      Field_run = (\<lambda>a f t.
                     if t = 1 then Inl (Raised ''no convergence'')
                     else Inr (2, \<lparr>Combustion = 1, Land_use = 0, Venting = 0, Flaring = 0,
                                   Fugitives = 0, Other = 0\<rparr>)),
      py_round = (\<lambda>x n. x),
      repr_float = (\<lambda>x. if x = 0 then ''0.0'' else if x = 1 then ''1.0'' else ''2.0'')\<rparr>"

definition demo_files :: fs where
  "demo_files =
     [''sim'' \<mapsto> Dir,
      ''sim/metadata.json'' \<mapsto> File ''meta'',
      ''sim/merged_model.xml'' \<mapsto> File ''<Model/>'',
      ''sim/f1/results.csv'' \<mapsto> File ''old results'',
      ''sim/f2'' \<mapsto> Dir,
      ''sim/f2/trial_data.csv'' \<mapsto> File ''table'']"

definition demo_generated :: DataFrame where
  "demo_generated =
     \<lparr>df_columns = [''WOR'', ''API''], df_index_name = Some ''trial_num'',
      df_rows = [(0, [0, 0]), (1, [0, 0]), (2, [0, 0])]\<rparr>"

definition demo_sim :: Simulation where
  "demo_sim =
     \<lparr>sim_pathname = ''sim'', model_file = ''sim/merged_model.xml'',
      model = Some demo_model, model_xml_string = Some ''<Model/>'',
      trial_data_df = None, trials = 3, analysis_name = Some ''a1'',
      field_names = Some [''f1'', ''f2''], metadata = Some demo_metadata\<rparr>"

definition demo_registry :: registry where
  "demo_registry =
     [(''WOR'', \<lparr>full_name = ''WOR'', class_name = None, attr_name = ''WOR'',
                  rv = Frozen ''uniform'' [(''min'', Num 0), (''max'', Num 10)]\<rparr>),
      (''Field.API'', \<lparr>full_name = ''Field.API'', class_name = Some ''Field'', attr_name = ''API'',
                        rv = Frozen ''normal'' [(''mean'', Num 30), (''stdev'', Num 2)]\<rparr>)]"

subsection \<open>Notions used to state the properties\<close>

text \<open>
  Every distribution of a registry that was filled through the constructor carries the
  class and attribute its full name splits into, under its full name as key.
\<close>

definition wf_distribution :: "Distribution \<Rightarrow> bool" where
  "wf_distribution d \<longleftrightarrow> split_attr_name (full_name d) = Inr (class_name d, attr_name d)"

definition wf_registry :: "registry \<Rightarrow> bool" where
  "wf_registry instances \<longleftrightarrow> list_all (\<lambda>kd. fst kd = full_name (snd kd) \<and> wf_distribution (snd kd)) instances"

text \<open>Whether the target of a distribution resolves on a field to an attribute with an explicit value.\<close>

definition target_explicit :: "Analysis option \<Rightarrow> Field \<Rightarrow> Distribution \<Rightarrow> bool" where
  "target_explicit a field d =
     (case lookup a (full_name d) field of
        Inl e \<Rightarrow> False
      | Inr (obj, attr, target_attr) \<Rightarrow> explicit target_attr)"

text \<open>What \<^verbatim>\<open>try_trial\<close> leaves for the rest of the iteration: the exception or the row of results.\<close>

definition outcome :: "env \<Rightarrow> int \<Rightarrow> error option \<times> Field \<times> Simulation \<times> fs \<Rightarrow> error + result" where
  "outcome env trial_num r =
     (case fst r of
        Some e \<Rightarrow> Inl e
      | None \<Rightarrow> Inr (result_tuple env trial_num (fst (snd r))))"

text \<open>
  The contract of one trial in the words of the spec: instantiate a fresh model from the
  cached template, re-resolve the subject in it by name, set every column of the row of
  the trial as an explicit value, invoke the evaluator, extract the metrics. It reads the
  template, the name of the analysis and the trial table of the simulation, and never
  the model the simulation holds.
\<close>

definition isolated_trial :: "env \<Rightarrow> fs \<Rightarrow> Simulation \<Rightarrow> string \<Rightarrow> int \<Rightarrow> error + result" where
  "isolated_trial env files self name trial_num =
     (case ModelFile env files
             \<lparr>mf_pathnames = [model_file self],
              mf_xml_string = model_xml_string self,
              mf_use_default_model = False,
              mf_analysis_names = Some [analysis_name self],
              mf_field_names = field_names self,
              mf_save_to_path = None\<rparr> of
        Inl e \<Rightarrow> Inl e
      | Inr (fresh, xml) \<Rightarrow>
          (case get_analysis fresh (analysis_name self) False of
             Inr (Some a) \<Rightarrow>
               (case Analysis_get_field fresh a name of
                  Inl e \<Rightarrow> Inl e
                | Inr subject \<Rightarrow>
                    (case fst (trial_data env files self (Inr subject) trial_num) of
                       Inl e \<Rightarrow> Inl e
                     | Inr data \<Rightarrow>
                         (case set_items data (Some a, subject) of
                            (Some e, af) \<Rightarrow> Inl e
                          | (None, af) \<Rightarrow>
                              (case fst af of
                                 None \<Rightarrow> Inl (Raised ''AttributeError: analysis is None'')
                               | Some a2 \<Rightarrow>
                                   (case Field_run env a2 (snd af) trial_num of
                                      Inl e \<Rightarrow> Inl e
                                    | Inr (ci, ghg) \<Rightarrow>
                                        Inr (result_tuple env trial_num
                                               ((snd af)\<lparr>carbon_intensity := ci, emissions := ghg\<rparr>)))))))
           | _ \<Rightarrow>
               Inl (CommandlineError
                 (''Analysis '' @ quoted (str_opt (analysis_name self)) @ '' was not found in model''))))"

text \<open>The trials of a list that complete, and those that fail, under that contract.\<close>

definition isolated_results :: "env \<Rightarrow> fs \<Rightarrow> Simulation \<Rightarrow> string \<Rightarrow> int list \<Rightarrow> result list" where
  "isolated_results env files self name nums =
     List.map_filter
       (\<lambda>t. case isolated_trial env files self name t of Inl e \<Rightarrow> None | Inr r \<Rightarrow> Some r) nums"

definition isolated_failures ::
  "env \<Rightarrow> fs \<Rightarrow> Simulation \<Rightarrow> string \<Rightarrow> int list \<Rightarrow> (int \<times> error) list" where
  "isolated_failures env files self name nums =
     List.map_filter
       (\<lambda>t. case isolated_trial env files self name t of Inl e \<Rightarrow> Some (t, e) | Inr r \<Rightarrow> None) nums"

text \<open>
  Two states of a simulation give a trial of the field of a given name the same inputs
  when they agree on everything but the model they hold and hand out the same trial
  table for that field.
\<close>

definition same_inputs :: "env \<Rightarrow> fs \<Rightarrow> string \<Rightarrow> Simulation \<Rightarrow> Simulation \<Rightarrow> bool" where
  "same_inputs env files name s s' \<longleftrightarrow>
     sim_pathname s' = sim_pathname s \<and> model_file s' = model_file s
     \<and> model_xml_string s' = model_xml_string s \<and> analysis_name s' = analysis_name s
     \<and> field_names s' = field_names s \<and> trials s' = trials s
     \<and> (\<forall>g. field_name g = name \<longrightarrow>
            fst (field_trial_data env files s' (Inr g)) = fst (field_trial_data env files s (Inr g)))"

section \<open>Properties\<close>

subsection \<open>The registry\<close>

lemma Distribution_init_Inr:
  "Distribution_init reg n r = Inr (d, reg') \<Longrightarrow>
     full_name d = n \<and> rv d = r \<and> reg' = AList.update n d reg"
  by (auto simp: Distribution_init_def Let_def split: sum.splits prod.splits)







lemma Distribution_init_lookup:
  "Distribution_init reg k r = Inr (d, reg') \<Longrightarrow>
     map_of reg' = (map_of reg)(k \<mapsto> d) \<and> full_name d = k \<and> rv d = r"
  by (auto simp: Distribution_init_def Let_def AList.update_conv' split: sum.splits prod.splits)

lemma register_all_lookup:
  "register_all reg rs = Inr reg' \<Longrightarrow>
     (case last_registered rs n of
        Some r \<Rightarrow> (\<exists>d. map_of reg' n = Some d \<and> full_name d = n \<and> rv d = r)
      | None \<Rightarrow> map_of reg' n = map_of reg n)"
proof (induction rs arbitrary: reg)
  case Nil
  then show ?case by simp
next
  case (Cons p rs)
  obtain k r where p: "p = (k, r)" by (cases p)
  from Cons.prems p obtain d reg1 where
    i: "Distribution_init reg k r = Inr (d, reg1)" and rest: "register_all reg1 rs = Inr reg'"
    by (auto split: sum.splits prod.splits)
  note l = Distribution_init_lookup[OF i]
  from Cons.IH[OF rest] l show ?case
    by (auto simp: p split: option.splits)
qed

lemma register_all_distinct:
  "register_all reg rs = Inr reg' \<Longrightarrow> distinct (map fst reg) \<Longrightarrow> distinct (map fst reg')"
proof (induction rs arbitrary: reg)
  case Nil
  then show ?case by simp
next
  case (Cons p rs)
  obtain k r where p: "p = (k, r)" by (cases p)
  from Cons.prems p obtain d reg1 where
    i: "Distribution_init reg k r = Inr (d, reg1)" and rest: "register_all reg1 rs = Inr reg'"
    by (auto split: sum.splits prod.splits)
  from i have "reg1 = AList.update k d reg" by (simp add: Distribution_init_Inr)
  with Cons.prems(2) have "distinct (map fst reg1)" by (simp add: AList.distinct_update)
  from Cons.IH[OF rest this] show ?case .
qed

lemma register_all_append:
  "register_all reg (xs @ ys) =
     (case register_all reg xs of Inl e \<Rightarrow> Inl e | Inr reg1 \<Rightarrow> register_all reg1 ys)"
  by (induction xs arbitrary: reg) (auto split: sum.splits prod.splits)

lemma read_distributions_register_all:
  "read_distributions get_frozen_rv reg rows = (None, reg') \<Longrightarrow>
     register_all reg (built_rows get_frozen_rv rows) = Inr reg'"
proof (induction rows arbitrary: reg)
  case Nil
  then show ?case by simp
next
  case (Cons r rows)
  show ?case
  proof (cases "row_action r")
    case Continue
    with Cons show ?thesis by (simp add: read_row_def)
  next
    case (Build kind kwargs)
    with Cons show ?thesis
      by (auto simp: read_row_def split: sum.splits prod.splits)
  next
    case (Raise e)
    with Cons show ?thesis by (simp add: read_row_def)
  qed
qed

lemma run_registrations_register_all:
  "run_registrations get_frozen_rv reg ops = (None, reg') \<Longrightarrow>
     register_all reg (registered get_frozen_rv ops) = Inr reg'"
proof (induction get_frozen_rv reg ops rule: run_registrations.induct)
  case (1 get_frozen_rv instances)
  then show ?case by simp
next
  case (2 get_frozen_rv instances n r rest)
  then show ?case by (auto split: sum.splits prod.splits)
next
  case (3 get_frozen_rv instances rows rest)
  then show ?case
    by (auto simp: register_all_append read_distributions_register_all split: option.splits prod.splits)
qed

text \<open>
  C8. Whatever registrations are made under one name, from code or from a table and in
  whatever order, as long as none of them raises: a lookup by that name returns the
  instance registered last (its name and its random variable), a name never registered
  keeps what the registry held, and the keys of the registry stay pairwise distinct, so
  that there is at most one live distribution per name.
\<close>

theorem registry_last_write_wins:
  assumes "run_registrations get_frozen_rv reg ops = (None, reg')"
  shows "(case last_registered (registered get_frozen_rv ops) n of
            Some r \<Rightarrow> (\<exists>d. distro_by_name reg' n = Some d \<and> full_name d = n \<and> rv d = r)
          | None \<Rightarrow> distro_by_name reg' n = distro_by_name reg n)
         \<and> (distinct (map fst reg) \<longrightarrow> distinct (map fst reg'))"
  using register_all_lookup[OF run_registrations_register_all[OF assms], of n]
        register_all_distinct[OF run_registrations_register_all[OF assms]]
  by (auto simp: distro_by_name_def split: option.splits)

theorem registry_last_write_wins_witness:
  "run_registrations demo_get_frozen_rv []
     [Register ''WOR'' (Frozen ''uniform'' []),
      ReadCsv [bounds_row ''Uniform'' ''WOR'' (Num 0) (Num 10)],
      Register ''WOR'' (Frozen ''normal'' [])]
     = (None, [(''WOR'', \<lparr>full_name = ''WOR'', class_name = None, attr_name = ''WOR'',
                            rv = Frozen ''normal'' []\<rparr>)])
   \<and> distinct (map fst ([] :: registry))
   \<and> (\<exists>d. distro_by_name
            [(''WOR'', \<lparr>full_name = ''WOR'', class_name = None, attr_name = ''WOR'',
                           rv = Frozen ''normal'' []\<rparr>)] ''WOR'' = Some d
          \<and> full_name d = ''WOR'' \<and> rv d = Frozen ''normal'' [])
   \<and> distinct (map fst
         [(''WOR'', \<lparr>full_name = ''WOR'', class_name = None, attr_name = ''WOR'',
                        rv = Frozen ''normal'' []\<rparr>)])"
proof -
  let ?ops = "[Register ''WOR'' (Frozen ''uniform'' []),
      ReadCsv [bounds_row ''Uniform'' ''WOR'' (Num 0) (Num 10)],
      Register ''WOR'' (Frozen ''normal'' [])]"
  let ?reg = "[(''WOR'', \<lparr>full_name = ''WOR'', class_name = None, attr_name = ''WOR'',
                            rv = Frozen ''normal'' []\<rparr>)]"
  have run: "run_registrations demo_get_frozen_rv [] ?ops = (None, ?reg)"
    by code_simp
  have l: "last_registered (registered demo_get_frozen_rv ?ops) ''WOR''
             = Some (Frozen ''normal'' [])"
    by code_simp
  from registry_last_write_wins[OF run, of "''WOR''"] l run show ?thesis
    by simp
qed

subsection \<open>Reading the distributions table\<close>




subsection \<open>Opening a simulation\<close>

text \<open>
  C10. When \<^verbatim>\<open>sim_dir\<close> is not an existing directory the constructor raises the user
  error at once: the result is that error whatever the external capabilities, the other
  arguments and the contents of the files are, so nothing has been read, and the files
  are the ones it was given, so nothing has been written.
\<close>

theorem Simulation_init_missing_directory:
  "\<not> isdir files sim_dir \<Longrightarrow>
     Simulation_init env instances files sim_dir aname ntrials fnames save_to_path meta_data_only =
       (Inl (McsUserError (''Simulation directory '' @ quoted sim_dir @ '' does not exist.'')), files)"
  by (simp add: Simulation_init_def)

theorem Simulation_init_missing_directory_witness:
  "\<not> isdir demo_files ''elsewhere''
   \<and> Simulation_init demo_env [] demo_files ''elsewhere'' (Some ''a1'') 3 None None False =
       (Inl (McsUserError (''Simulation directory '' @ quoted ''elsewhere'' @ '' does not exist.'')),
        demo_files)"
proof -
  have h: "\<not> isdir demo_files ''elsewhere''" by code_simp
  from Simulation_init_missing_directory[OF h] h show ?thesis by blast
qed

text \<open>
  C5, as the code has it. Reloading with a list of requested field names raises nothing
  for a requested name that the metadata does not list: the field names of the
  simulation become the names of the metadata that were requested, in the order of the
  metadata, and the other names are dropped. The user error of \<^verbatim>\<open>_load_meta_data\<close>
  comes only from a metadata file that cannot be read or parsed.
\<close>

theorem load_meta_data_drops_unknown_names:
  "(read_file files (metadata_path self) = Inr body \<and> json_load env body = Inr md
      \<and> md_field_names md = Some md_names \<and> requested \<noteq> [] \<longrightarrow>
      load_meta_data env files self (Some requested) =
        (Inr (), self\<lparr>metadata := Some md,
                      field_names := Some (filter (\<lambda>name. name \<in> set requested) md_names),
                      analysis_name := md_analysis_name md,
                      trials := md_trials md\<rparr>))
   \<and> (load_meta_data env files self fnames = (Inl (McsUserError msg), self') \<longrightarrow>
        (case read_file files (metadata_path self) of
           Inl e \<Rightarrow> True
         | Inr text \<Rightarrow> isl (json_load env text)))"
  by (auto simp: load_meta_data_def Let_def truthy_def split: sum.splits option.splits if_splits)

theorem load_meta_data_drops_unknown_names_witness:
  "read_file demo_files (metadata_path demo_sim) = Inr ''meta''
   \<and> json_load demo_env ''meta'' = Inr demo_metadata
   \<and> md_field_names demo_metadata = Some [''f1'', ''f2'']
   \<and> [''nope'', ''f2''] \<noteq> []
   \<and> load_meta_data demo_env demo_files demo_sim (Some [''nope'', ''f2'']) =
        (Inr (), demo_sim\<lparr>metadata := Some demo_metadata,
                          field_names := Some [''f2''],
                          analysis_name := Some ''a1'',
                          trials := 3\<rparr>)
   \<and> load_meta_data demo_env (Map.empty(''sim'' \<mapsto> Dir)) demo_sim None
        = (Inl (McsUserError
             (''Failed to load simulation '' @ quoted ''sim/metadata.json'' @ '' : ''
                @ ''No such file: '' @ quoted ''sim/metadata.json'')), demo_sim)
   \<and> (case read_file (Map.empty(''sim'' \<mapsto> Dir)) (metadata_path demo_sim) of
         Inl e \<Rightarrow> True
       | Inr text \<Rightarrow> isl (json_load demo_env text))"
proof -
  let ?msg = "''Failed to load simulation '' @ quoted ''sim/metadata.json'' @ '' : ''
                @ ''No such file: '' @ quoted ''sim/metadata.json''"
  have h: "read_file demo_files (metadata_path demo_sim) = Inr ''meta''
      \<and> json_load demo_env ''meta'' = Inr demo_metadata
      \<and> md_field_names demo_metadata = Some [''f1'', ''f2'']
      \<and> [''nope'', ''f2''] \<noteq> []" by code_simp
  have f: "filter (\<lambda>name. name \<in> set [''nope'', ''f2'']) [''f1'', ''f2''] = [''f2'']"
    by simp
  have m: "md_analysis_name demo_metadata = Some ''a1''" "md_trials demo_metadata = 3"
    by (simp_all add: demo_metadata_def)
  have e: "load_meta_data demo_env (Map.empty(''sim'' \<mapsto> Dir)) demo_sim None
        = (Inl (McsUserError ?msg), demo_sim)"
    by code_simp
  note i = load_meta_data_drops_unknown_names
            [where files = "Map.empty(''sim'' \<mapsto> Dir)" and self = demo_sim and env = demo_env
               and fnames = None and self' = demo_sim and msg = ?msg,
             THEN conjunct2, rule_format, OF e]
  note l = load_meta_data_drops_unknown_names
         [where files = demo_files and self = demo_sim and body = "''meta''" and env = demo_env
            and md = demo_metadata and md_names = "[''f1'', ''f2'']"
            and requested = "[''nope'', ''f2'']",
          THEN conjunct1, rule_format, OF h]
  from l have l': "load_meta_data demo_env demo_files demo_sim (Some [''nope'', ''f2'']) =
        (Inr (), demo_sim\<lparr>metadata := Some demo_metadata,
                          field_names := Some [''f2''],
                          analysis_name := Some ''a1'',
                          trials := 3\<rparr>)"
    by (simp only: f m)
  from h l' e i show ?thesis by blast
qed

text \<open>
  That a requested name missing from the metadata raises a user error does not hold: a
  reload that requests the name \<^verbatim>\<open>nope\<close>, which the metadata does not list, returns a
  simulation and no error.
\<close>

theorem reload_unknown_field_name_counterexample:
  "md_field_names demo_metadata = Some [''f1'', ''f2'']
   \<and> \<not> isl (fst (load_meta_data demo_env demo_files demo_sim (Some [''nope''])))
   \<and> \<not> isl (fst (Simulation_init demo_env [] demo_files ''sim'' None 0 (Some [''nope'']) None False))
   \<and> field_names (projr (fst (Simulation_init demo_env [] demo_files ''sim'' None 0
                                  (Some [''nope'']) None False))) = Some []"
  by code_simp

subsection \<open>Generating the trial data\<close>

lemma split_on_no_sep: "c \<notin> set s \<Longrightarrow> split_on c s = [s]"
  by (induction s) auto

lemma split_on_parts: "w \<in> set (split_on c s) \<Longrightarrow> c \<notin> set w"
  by (induction s arbitrary: w) (auto split: if_splits list.splits)

lemma split_attr_name_attr: "split_attr_name s = Inr (cls, a) \<Longrightarrow> CHR ''.'' \<notin> set a"
proof -
  assume h: "split_attr_name s = Inr (cls, a)"
  then have "a \<in> set (split_on (CHR ''.'') s)"
    by (auto simp: split_attr_name_def split: list.splits)
  then show ?thesis by (rule split_on_parts)
qed

lemma split_attr_name_plain: "CHR ''.'' \<notin> set s \<Longrightarrow> split_attr_name s = Inr (None, s)"
  by (simp add: split_attr_name_def split_on_no_sep)

lemma lookup_split:
  "split_attr_name n = Inr (cls, a) \<Longrightarrow> split_attr_name n' = Inr (cls', a) \<Longrightarrow>
   (cls = None \<or> cls = Some ''Field'') \<Longrightarrow> (cls' = None \<or> cls' = Some ''Field'') \<Longrightarrow>
   lookup an n field = lookup an n' field"
  by (auto simp: lookup_def)

lemma lookup_same_column:
  assumes "wf_distribution d" "wf_distribution d'" "column_name d = column_name d'"
  shows "lookup an (full_name d) field = lookup an (full_name d') field"
proof -
  from assms(1) have s: "split_attr_name (full_name d) = Inr (class_name d, attr_name d)"
    by (simp add: wf_distribution_def)
  from assms(2) have s': "split_attr_name (full_name d') = Inr (class_name d', attr_name d')"
    by (simp add: wf_distribution_def)
  show ?thesis
  proof (cases "class_name d = Some ''Field''")
    case True
    note T = True
    show ?thesis
    proof (cases "class_name d' = Some ''Field''")
      case True
      with T assms(3) have "attr_name d = attr_name d'" by (simp add: column_name_def)
      with s s' T True show ?thesis by (auto intro: lookup_split)
    next
      case False
      with T assms(3) have e: "full_name d' = attr_name d" by (simp add: column_name_def)
      from split_attr_name_attr[OF s] have "CHR ''.'' \<notin> set (attr_name d)" .
      then have "split_attr_name (full_name d') = Inr (None, attr_name d)"
        using e by (simp add: split_attr_name_plain)
      with s T show ?thesis by (auto intro: lookup_split)
    qed
  next
    case False
    note F = False
    show ?thesis
    proof (cases "class_name d' = Some ''Field''")
      case True
      with F assms(3) have e: "full_name d = attr_name d'" by (simp add: column_name_def)
      from split_attr_name_attr[OF s'] have "CHR ''.'' \<notin> set (attr_name d')" .
      then have "split_attr_name (full_name d) = Inr (None, attr_name d')"
        using e by (simp add: split_attr_name_plain)
      with s' True show ?thesis by (auto intro: lookup_split)
    next
      case False
      with F assms(3) show ?thesis by (simp add: column_name_def)
    qed
  qed
qed

lemma collect_Inr:
  "collect an field ds = Inr (rvs, cols) \<Longrightarrow>
     rvs = map rv (filter (\<lambda>d. \<not> target_explicit an field d) ds)
     \<and> cols = map column_name (filter (\<lambda>d. \<not> target_explicit an field d) ds)"
proof (induction ds arbitrary: rvs cols)
  case Nil
  then show ?case by simp
next
  case (Cons d ds)
  then show ?case
    by (auto simp: target_explicit_def split: sum.splits prod.splits if_splits)
qed

lemma collect_column_absent:
  assumes c: "collect an field ds = Inr (rvs, cols)"
    and wf: "list_all wf_distribution ds"
    and d: "d \<in> set ds" and ex: "target_explicit an field d"
  shows "column_name d \<notin> set cols"
proof
  assume "column_name d \<in> set cols"
  with collect_Inr[OF c] obtain d' where d': "d' \<in> set ds" "\<not> target_explicit an field d'"
    "column_name d' = column_name d" by auto
  from wf d d' have "wf_distribution d" "wf_distribution d'" by (auto simp: list_all_iff)
  from lookup_same_column[OF this d'(3)[symmetric]] ex d'(2) show False
    by (simp add: target_explicit_def)
qed

lemma wf_registry_distributions: "wf_registry reg \<Longrightarrow> list_all wf_distribution (distributions reg)"
  by (auto simp: wf_registry_def distributions_def list_all_iff)

lemma Distribution_init_wf:
  "Distribution_init reg n r = Inr (d, reg') \<Longrightarrow> wf_registry reg \<Longrightarrow> wf_registry reg'"
proof -
  assume i: "Distribution_init reg n r = Inr (d, reg')" and w: "wf_registry reg"
  from i have d: "full_name d = n" "wf_distribution d" "reg' = AList.update n d reg"
    by (auto simp: Distribution_init_def wf_distribution_def Let_def split: sum.splits prod.splits)
  have "set (AList.update n d reg) \<subseteq> insert (n, d) (set reg)"
    by (induction reg) auto
  with w d show ?thesis
    by (auto simp: wf_registry_def list_all_iff)
qed

lemma register_all_wf:
  "register_all reg rs = Inr reg' \<Longrightarrow> wf_registry reg \<Longrightarrow> wf_registry reg'"
proof (induction rs arbitrary: reg)
  case Nil
  then show ?case by simp
next
  case (Cons p rs)
  obtain k r where p: "p = (k, r)" by (cases p)
  from Cons.prems p obtain d reg1 where
    i: "Distribution_init reg k r = Inr (d, reg1)" and rest: "register_all reg1 rs = Inr reg'"
    by (auto split: sum.splits prod.splits)
  from Cons.IH[OF rest Distribution_init_wf[OF i Cons.prems(2)]] show ?case .
qed

lemma run_registrations_wf:
  "run_registrations get_frozen_rv [] ops = (None, reg) \<Longrightarrow> wf_registry reg"
  using register_all_wf[OF run_registrations_register_all, of get_frozen_rv "[]" ops reg]
  by (simp add: wf_registry_def)

lemma analysis_trial_data_df: "analysis (s\<lparr>trial_data_df := x\<rparr>) = analysis s"
  by (simp add: analysis_def split: option.splits)

lemma generate_field_inputs:
  "analysis (fst (snd (generate_field env reg corr files s f))) = analysis s"
  "trials (fst (snd (generate_field env reg corr files s f))) = trials s"
  by (simp_all add: generate_field_def Let_def analysis_trial_data_df
        split: sum.splits prod.splits)

lemma generate_loop_inputs:
  "analysis (fst (snd (generate_loop env reg corr files s flds))) = analysis s
   \<and> trials (fst (snd (generate_loop env reg corr files s flds))) = trials s"
proof (induction flds arbitrary: files s)
  case Nil
  show ?case by simp
next
  case (Cons f flds)
  obtain r s' files' where g: "generate_field env reg corr files s f = (r, s', files')"
    by (cases "generate_field env reg corr files s f") auto
  from generate_field_inputs[of env reg corr files s f] g
  have s': "analysis s' = analysis s" "trials s' = trials s" by simp_all
  show ?case
  proof (cases r)
    case (Inl e)
    with g s' show ?thesis by simp
  next
    case (Inr u)
    with g s' Cons.IH[of files' s'] show ?thesis by simp
  qed
qed

lemma generate_loop_append:
  "generate_loop env reg corr files s (pre @ post) =
     (case generate_loop env reg corr files s pre of
        (Inl e, s1, files1) \<Rightarrow> (Inl e, s1, files1)
      | (Inr u, s1, files1) \<Rightarrow> generate_loop env reg corr files1 s1 post)"
  by (induction pre arbitrary: files s) (auto split: sum.splits prod.splits)

text \<open>
  C4. For a registry filled through the constructor, and for every field that the loop of
  \<^verbatim>\<open>generate\<close> reaches (the fields chosen before it went through): the table of the
  field is sampled for exactly the distributions whose target has no explicit value on
  the field, in registry order, and the column of a distribution whose target has an
  explicit value is not among the columns. When no column remains for the field,
  \<^verbatim>\<open>generate\<close> raises the user error with the simulation and the files as the fields
  before it left them: the tables of those fields have been sampled, cached and written,
  and nothing is sampled, cached or written for this field or a later one. When columns remain, \<^verbatim>\<open>lhs\<close> is called with exactly these columns and
  \<^verbatim>\<open>generate\<close> goes on with the table cached and written.
\<close>

theorem generate_explicit_overrides_distribution:
  assumes "wf_registry instances"
    and "chosen_fields self = Inr (pre @ field # post)"
    and "fst (generate_loop env instances corr_mat files self pre) = Inr ()"
  shows "case collect (analysis self) field (distributions instances) of
           Inl e \<Rightarrow>
             generate env instances files self corr_mat =
               (Inl e, snd (generate_loop env instances corr_mat files self pre))
         | Inr (rvs, cols) \<Rightarrow>
             rvs = map rv (filter (\<lambda>d. \<not> target_explicit (analysis self) field d)
                             (distributions instances))
             \<and> cols = map column_name (filter (\<lambda>d. \<not> target_explicit (analysis self) field d)
                                        (distributions instances))
             \<and> (\<forall>d \<in> set (distributions instances).
                   target_explicit (analysis self) field d \<longrightarrow> column_name d \<notin> set cols)
             \<and> (if cols = [] then
                  generate env instances files self corr_mat =
                    (Inl (McsUserError
                       (''Can't run MCS: all parameters with distributions have explicit values in ''
                          @ field_name field @ ''.'')),
                     snd (generate_loop env instances corr_mat files self pre))
                else
                  (case lhs env rvs (trials self) cols corr_mat of
                     Inl e \<Rightarrow>
                       generate env instances files self corr_mat =
                         (Inl e, snd (generate_loop env instances corr_mat files self pre))
                   | Inr df \<Rightarrow>
                       generate env instances files self corr_mat =
                         generate_loop env instances corr_mat
                           (save_trial_data env
                              (snd (snd (generate_loop env instances corr_mat files self pre)))
                              ((fst (snd (generate_loop env instances corr_mat files self pre)))
                                 \<lparr>trial_data_df := Some (df\<lparr>df_index_name := Some ''trial_num''\<rparr>)\<rparr>)
                              field)
                           ((fst (snd (generate_loop env instances corr_mat files self pre)))
                              \<lparr>trial_data_df := Some (df\<lparr>df_index_name := Some ''trial_num''\<rparr>)\<rparr>)
                           post))"
proof -
  obtain r s1 files1 where p: "generate_loop env instances corr_mat files self pre = (r, s1, files1)"
    by (cases "generate_loop env instances corr_mat files self pre") auto
  from assms(3) p have r: "r = Inr ()" by simp
  from generate_loop_inputs[of env instances corr_mat files self pre] p
  have an: "analysis s1 = analysis self" and tr: "trials s1 = trials self"
    by simp_all
  have g: "generate env instances files self corr_mat =
      (case generate_field env instances corr_mat files1 s1 field of
         (Inl e, s2, files2) \<Rightarrow> (Inl e, s2, files2)
       | (Inr u, s2, files2) \<Rightarrow> generate_loop env instances corr_mat files2 s2 post)"
    using generate_loop_append[of env instances corr_mat files self pre "field # post"]
    by (simp add: generate_def assms(2) p r)
  show ?thesis
  proof (cases "collect (analysis self) field (distributions instances)")
    case (Inl e)
    then show ?thesis by (simp add: g generate_field_def an p)
  next
    case (Inr q)
    obtain rvs cols where q: "q = (rvs, cols)" by (cases q)
    note c = Inr[unfolded q]
    have abs: "\<forall>d \<in> set (distributions instances).
                   target_explicit (analysis self) field d \<longrightarrow> column_name d \<notin> set cols"
      using collect_column_absent[OF c wf_registry_distributions[OF assms(1)]] by blast
    have k: "if cols = [] then
                  generate env instances files self corr_mat =
                    (Inl (McsUserError
                       (''Can't run MCS: all parameters with distributions have explicit values in ''
                          @ field_name field @ ''.'')), s1, files1)
                else
                  (case lhs env rvs (trials self) cols corr_mat of
                     Inl e \<Rightarrow> generate env instances files self corr_mat = (Inl e, s1, files1)
                   | Inr df \<Rightarrow>
                       generate env instances files self corr_mat =
                         generate_loop env instances corr_mat
                           (save_trial_data env files1
                              (s1\<lparr>trial_data_df := Some (df\<lparr>df_index_name := Some ''trial_num''\<rparr>)\<rparr>)
                              field)
                           (s1\<lparr>trial_data_df := Some (df\<lparr>df_index_name := Some ''trial_num''\<rparr>)\<rparr>)
                           post)"
      by (simp add: g generate_field_def an tr c Let_def split: sum.splits)
    have r1: "rvs = map rv (filter (\<lambda>d. \<not> target_explicit (analysis self) field d)
                             (distributions instances))"
      and r2: "cols = map column_name (filter (\<lambda>d. \<not> target_explicit (analysis self) field d)
                                        (distributions instances))"
      using collect_Inr[OF c] by simp_all
    show ?thesis
      unfolding c sum.case prod.case p snd_conv fst_conv
      using r1 r2 abs k by blast
  qed
qed

theorem generate_explicit_overrides_distribution_witness:
  "wf_registry demo_registry
   \<and> chosen_fields demo_sim = Inr ([] @ demo_field ''f1'' True # [demo_field ''f2'' False])
   \<and> fst (generate_loop demo_env demo_registry None demo_files demo_sim []) = Inr ()
   \<and> snd (demo_registry ! 0) \<in> set (distributions demo_registry)
   \<and> target_explicit (analysis demo_sim) (demo_field ''f1'' True) (snd (demo_registry ! 0))
   \<and> collect (analysis demo_sim) (demo_field ''f1'' True) (distributions demo_registry) =
       Inr ([Frozen ''normal'' [(''mean'', Num 30), (''stdev'', Num 2)]], [''API''])
   \<and> column_name (snd (demo_registry ! 0)) \<notin> set [''API'']
   \<and> wf_registry [demo_registry ! 0]
   \<and> chosen_fields (demo_sim\<lparr>field_names := Some [''f2'', ''f1'']\<rparr>)
        = Inr ([demo_field ''f2'' False] @ demo_field ''f1'' True # [])
   \<and> fst (generate_loop demo_env [demo_registry ! 0] None demo_files
             (demo_sim\<lparr>field_names := Some [''f2'', ''f1'']\<rparr>) [demo_field ''f2'' False]) = Inr ()
   \<and> collect (analysis (demo_sim\<lparr>field_names := Some [''f2'', ''f1'']\<rparr>)) (demo_field ''f1'' True)
        (distributions [demo_registry ! 0]) = Inr ([], [])
   \<and> generate demo_env [demo_registry ! 0] demo_files
        (demo_sim\<lparr>field_names := Some [''f2'', ''f1'']\<rparr>) None =
       (Inl (McsUserError
          (''Can't run MCS: all parameters with distributions have explicit values in ''
             @ field_name (demo_field ''f1'' True) @ ''.'')),
        snd (generate_loop demo_env [demo_registry ! 0] None demo_files
               (demo_sim\<lparr>field_names := Some [''f2'', ''f1'']\<rparr>) [demo_field ''f2'' False]))
   \<and> trial_data_df (demo_sim\<lparr>field_names := Some [''f2'', ''f1'']\<rparr>) = None
   \<and> map_option df_columns
         (trial_data_df (fst (snd (generate demo_env [demo_registry ! 0] demo_files
            (demo_sim\<lparr>field_names := Some [''f2'', ''f1'']\<rparr>) None)))) = Some [''WOR'']"
proof -
  let ?s = "demo_sim\<lparr>field_names := Some [''f2'', ''f1'']\<rparr>"
  have w: "wf_registry demo_registry" "wf_registry [demo_registry ! 0]" by code_simp+
  have f1: "chosen_fields demo_sim = Inr ([] @ demo_field ''f1'' True # [demo_field ''f2'' False])"
    by code_simp
  have l1: "fst (generate_loop demo_env demo_registry None demo_files demo_sim []) = Inr ()"
    by simp
  have m: "snd (demo_registry ! 0) \<in> set (distributions demo_registry)" by code_simp
  have t: "target_explicit (analysis demo_sim) (demo_field ''f1'' True) (snd (demo_registry ! 0))"
    by code_simp
  have c: "collect (analysis demo_sim) (demo_field ''f1'' True) (distributions demo_registry) =
       Inr ([Frozen ''normal'' [(''mean'', Num 30), (''stdev'', Num 2)]], [''API''])"
    by code_simp
  have f2: "chosen_fields ?s = Inr ([demo_field ''f2'' False] @ demo_field ''f1'' True # [])"
    by code_simp
  have l2: "fst (generate_loop demo_env [demo_registry ! 0] None demo_files ?s
                   [demo_field ''f2'' False]) = Inr ()"
    by code_simp
  have c0: "collect (analysis ?s) (demo_field ''f1'' True) (distributions [demo_registry ! 0]) =
       Inr ([], [])"
    by code_simp
  note g1 = generate_explicit_overrides_distribution
         [OF w(1) f1 l1, unfolded c sum.case prod.case]
  from g1 m t have a: "column_name (snd (demo_registry ! 0)) \<notin> set [''API'']"
    by blast
  note g2 = generate_explicit_overrides_distribution
         [OF w(2) f2 l2, unfolded c0 sum.case prod.case]
  from g2 have g: "generate demo_env [demo_registry ! 0] demo_files ?s None =
       (Inl (McsUserError
          (''Can't run MCS: all parameters with distributions have explicit values in ''
             @ field_name (demo_field ''f1'' True) @ ''.'')),
        snd (generate_loop demo_env [demo_registry ! 0] None demo_files ?s
               [demo_field ''f2'' False]))"
    by simp
  have b: "trial_data_df ?s = None" by (simp add: demo_sim_def)
  have d: "map_option df_columns
         (trial_data_df (fst (snd (generate_loop demo_env [demo_registry ! 0] None demo_files ?s
            [demo_field ''f2'' False])))) = Some [''WOR'']"
    by code_simp
  from g d have k: "map_option df_columns
         (trial_data_df (fst (snd (generate demo_env [demo_registry ! 0] demo_files ?s None))))
       = Some [''WOR'']"
    by simp
  from w f1 l1 m t c a f2 l2 c0 g b k show ?thesis by blast
qed

subsection \<open>Running the trials of a field\<close>

lemma load_model_None:
  "load_model env files s None =
     (case ModelFile env files
             \<lparr>mf_pathnames = [model_file s],
              mf_xml_string = model_xml_string s,
              mf_use_default_model = False,
              mf_analysis_names = Some [analysis_name s],
              mf_field_names = field_names s,
              mf_save_to_path = None\<rparr> of
        Inl e \<Rightarrow> (Inl e, s, files)
      | Inr (m, xml) \<Rightarrow>
          (case get_analysis m (analysis_name s) False of
             Inr (Some a) \<Rightarrow> (Inr (), s\<lparr>model := Some m\<rparr>, files)
           | _ \<Rightarrow> (Inl (CommandlineError
                      (''Analysis '' @ quoted (str_opt (analysis_name s)) @ '' was not found in model'')),
                    s\<lparr>model := Some m\<rparr>, files)))"
  by (simp add: load_model_def ModelFile_new_def analysis_def get_analysis_def Let_def
           split: sum.splits prod.splits option.splits)

lemma analysis_after_load:
  "get_analysis m (analysis_name s) False = Inr (Some a) \<Longrightarrow> analysis (s\<lparr>model := Some m\<rparr>) = Some a"
  by (simp add: analysis_def)

lemma Analysis_get_field_name:
  "Analysis_get_field m a name = Inr g \<Longrightarrow> field_name g = name"
  by (auto simp: Analysis_get_field_def split: if_splits option.splits dest: find_Some_iff[THEN iffD1])

lemma field_trial_data_model:
  "field_trial_data env files (s\<lparr>model := x\<rparr>) (Inr g) =
     (fst (field_trial_data env files s (Inr g)), (snd (field_trial_data env files s (Inr g)))\<lparr>model := x\<rparr>)"
  by (simp add: field_trial_data_def trial_data_path_def field_dir_def Let_def
           split: option.splits sum.splits)

lemma field_trial_data_result:
  assumes "field_trial_data env files s (Inr g) = (r, s')"
  shows "s' = s\<lparr>trial_data_df := trial_data_df s'\<rparr>"
    and "field_name g' = field_name g \<Longrightarrow> fst (field_trial_data env files s' (Inr g')) = r"
    and "field_name g' = field_name g \<Longrightarrow> fst (field_trial_data env files s (Inr g')) = r"
  using assms
  by (auto simp: field_trial_data_def trial_data_path_def field_dir_def Let_def
           split: option.splits sum.splits if_splits)

lemma same_inputs_refl: "same_inputs env files name s s"
  by (simp add: same_inputs_def)

lemma same_inputs_trans:
  "same_inputs env files name s s' \<Longrightarrow> same_inputs env files name s' s'' \<Longrightarrow>
   same_inputs env files name s s''"
  by (simp add: same_inputs_def)

lemma same_inputs_model: "same_inputs env files name s (s\<lparr>model := x\<rparr>)"
  by (simp add: same_inputs_def field_trial_data_model)

lemma same_inputs_field_trial_data:
  assumes "field_trial_data env files s (Inr g) = (r, s')"
  shows "same_inputs env files (field_name g) s s'"
proof -
  note f = field_trial_data_result[OF assms]
  have "sim_pathname s' = sim_pathname s \<and> model_file s' = model_file s
     \<and> model_xml_string s' = model_xml_string s \<and> analysis_name s' = analysis_name s
     \<and> field_names s' = field_names s \<and> trials s' = trials s"
    by (subst f(1), simp)+
  with f(2,3) show ?thesis by (simp add: same_inputs_def)
qed

lemma trial_data_fst:
  "fst (trial_data env files s (Inr g) t) =
     (case fst (field_trial_data env files s (Inr g)) of
        Inl e \<Rightarrow> Inl e
      | Inr df \<Rightarrow>
          (case map_of (df_rows df) t of
             None \<Rightarrow> Inl (McsSystemError
                        (''Trial '' @ str_int t @ '' was not found in ''
                           @ quoted (pathjoin (pathjoin (sim_pathname s) (field_name g)) TRIAL_DATA_CSV)))
           | Some vals \<Rightarrow> Inr (zip (df_columns df) vals)))"
proof -
  obtain r s' where f: "field_trial_data env files s (Inr g) = (r, s')"
    by (cases "field_trial_data env files s (Inr g)")
  have "sim_pathname s' = sim_pathname s"
    by (subst field_trial_data_result(1)[OF f], simp)
  then show ?thesis
    by (simp add: trial_data_def f trial_data_path_def field_dir_def Let_def
             split: sum.splits option.splits)
qed

lemma trial_data_snd:
  "snd (trial_data env files s (Inr g) t) = snd (field_trial_data env files s (Inr g))"
  by (simp add: trial_data_def split: sum.splits option.splits prod.splits)

lemma trial_data_same_inputs:
  assumes "same_inputs env files name s s'" "field_name g = name"
  shows "fst (trial_data env files s' (Inr g) t) = fst (trial_data env files s (Inr g) t)"
  using assms by (auto simp: trial_data_fst same_inputs_def split: sum.splits option.splits)

lemma set_attr_names:
  "set_attr obj attr v (Some a, f) = (a', f') \<Longrightarrow>
     field_name f' = field_name f \<and> (\<exists>a2. a' = Some a2 \<and> ana_name a2 = ana_name a)"
  by (auto simp: set_attr_def split: owner.splits)

lemma set_items_names:
  "set_items data (Some a, f) = (err, a', f') \<Longrightarrow>
     field_name f' = field_name f \<and> (\<exists>a2. a' = Some a2 \<and> ana_name a2 = ana_name a)"
proof (induction data arbitrary: a f)
  case Nil
  then show ?case by auto
next
  case (Cons p data)
  obtain name v where p: "p = (name, v)" by (cases p)
  show ?case
  proof (cases "lookup (Some a) name f")
    case (Inl e)
    with Cons.prems p show ?thesis by auto
  next
    case (Inr q)
    obtain obj attr attr_obj where q: "q = (obj, attr, attr_obj)" by (cases q)
    obtain a1 f1 where s: "set_attr obj attr (Num v) (Some a, f) = (a1, f1)"
      by (cases "set_attr obj attr (Num v) (Some a, f)")
    from set_attr_names[OF s] obtain a2 where a2: "a1 = Some a2" "ana_name a2 = ana_name a"
      "field_name f1 = field_name f" by auto
    from Cons.prems p Inr q s a2 have "set_items data (Some a2, f1) = (err, a', f')" by simp
    from Cons.IH[OF this] a2 show ?thesis by auto
  qed
qed

lemma analysis_Some:
  "analysis s = Some a \<Longrightarrow>
     \<exists>m n. model s = Some m \<and> analysis_name s = Some n
            \<and> find (\<lambda>b. ana_name b = n) (analysis_dict m) = Some a \<and> ana_name a = n"
  by (auto simp: analysis_def get_analysis_def Let_def find_Some_iff
           split: option.splits sum.splits if_splits)

lemma find_replace:
  assumes "find (\<lambda>b. ana_name b = n) l = Some a" "ana_name a2 = n"
  shows "find (\<lambda>b. ana_name b = n) (map (\<lambda>b. if ana_name b = ana_name a2 then a2 else b) l) = Some a2"
  using assms by (induction l) (auto split: if_splits)

lemma analysis_put_back:
  assumes "analysis s = Some a" "ana_name a2 = ana_name a"
  shows "analysis (put_back (Some a2, f) s) = Some a2"
proof -
  from analysis_Some[OF assms(1)] obtain m n where
    m: "model s = Some m" "analysis_name s = Some n"
       "find (\<lambda>b. ana_name b = n) (analysis_dict m) = Some a" "ana_name a = n" by blast
  from find_replace[OF m(3), of a2] assms(2) m(4)
  have "find (\<lambda>b. ana_name b = n) (map (\<lambda>b. if ana_name b = ana_name a2 then a2 else b) (analysis_dict m)) = Some a2"
    by simp
  with m show ?thesis
    by (simp add: analysis_def put_back_def put_field_def put_analysis_def get_analysis_def Let_def)
qed

lemma put_back_model: "put_back af s = s\<lparr>model := model (put_back af s)\<rparr>"
  by (simp add: put_back_def)

lemma field_trial_data_analysis:
  "analysis (snd (field_trial_data env files s (Inr g))) = analysis s"
proof -
  obtain r s' where f: "field_trial_data env files s (Inr g) = (r, s')"
    by (cases "field_trial_data env files s (Inr g)")
  have "analysis s' = analysis s"
    by (subst field_trial_data_result(1)[OF f], simp add: analysis_trial_data_df)
  with f show ?thesis by simp
qed

lemma set_trial_data_unfold:
  "set_trial_data env files s1 g t =
     (case fst (trial_data env files s1 (Inr g) t) of
        Inl e \<Rightarrow> (Some e, g, snd (field_trial_data env files s1 (Inr g)))
      | Inr data \<Rightarrow>
          (case set_items data (analysis s1, g) of
             (err, af) \<Rightarrow> (err, snd af, put_back af (snd (field_trial_data env files s1 (Inr g))))))"
proof -
  obtain r s' where td: "trial_data env files s1 (Inr g) t = (r, s')"
    by (cases "trial_data env files s1 (Inr g) t")
  from td have s': "s' = snd (field_trial_data env files s1 (Inr g))"
    using trial_data_snd[of env files s1 g t] by simp
  then have "analysis s' = analysis s1" by (simp add: field_trial_data_analysis)
  with td s' show ?thesis
    by (simp add: set_trial_data_def split: sum.splits prod.splits)
qed

lemma same_inputs_snd_field_trial_data:
  "same_inputs env files (field_name g) s (snd (field_trial_data env files s (Inr g)))"
  using same_inputs_field_trial_data[of env files s g] by (cases "field_trial_data env files s (Inr g)") simp

lemma same_inputs_put_back:
  "same_inputs env files name s s' \<Longrightarrow> same_inputs env files name s (put_back af s')"
  by (subst put_back_model) (erule same_inputs_trans, rule same_inputs_model)

lemma try_trial_summary:
  "\<exists>err f' s'. try_trial env files s f t = (err, f', s', files)
      \<and> field_name f' = field_name f
      \<and> same_inputs env files (field_name f) s s'
      \<and> (case err of Some e \<Rightarrow> Inl e | None \<Rightarrow> Inr (result_tuple env t f'))
            = isolated_trial env files s (field_name f) t"
proof -
  let ?args = "\<lparr>mf_pathnames = [model_file s],
              mf_xml_string = model_xml_string s,
              mf_use_default_model = False,
              mf_analysis_names = Some [analysis_name s],
              mf_field_names = field_names s,
              mf_save_to_path = None\<rparr>"
  show ?thesis
  proof (cases "ModelFile env files ?args")
    case (Inl e)
    then show ?thesis
      by (simp add: try_trial_def load_model_None isolated_trial_def same_inputs_refl)
  next
    case (Inr p)
    obtain fresh xml where p: "p = (fresh, xml)" by (cases p)
    note mf = Inr[unfolded p]
    let ?s1 = "s\<lparr>model := Some fresh\<rparr>"
    have s1: "same_inputs env files (field_name f) s ?s1" by (rule same_inputs_model)
    show ?thesis
    proof (cases "\<exists>a. get_analysis fresh (analysis_name s) False = Inr (Some a)")
      case False
      then show ?thesis
        by (auto simp: try_trial_def load_model_None isolated_trial_def mf s1
                 split: sum.splits option.splits)
    next
      case True
      then obtain a where a: "get_analysis fresh (analysis_name s) False = Inr (Some a)" by blast
      have an: "analysis ?s1 = Some a" by (rule analysis_after_load[OF a])
      have ld: "load_model env files s None = (Inr (), ?s1, files)"
        by (simp add: load_model_None mf a)
      show ?thesis
      proof (cases "Analysis_get_field fresh a (field_name f)")
        case (Inl e)
        then show ?thesis
          by (simp add: try_trial_def ld an isolated_trial_def mf a s1)
      next
        case (Inr g)
        note gf = Inr
        have gn: "field_name g = field_name f" by (rule Analysis_get_field_name[OF gf])
        let ?s2 = "snd (field_trial_data env files ?s1 (Inr g))"
        have "same_inputs env files (field_name f) ?s1 ?s2"
          using same_inputs_snd_field_trial_data[of env files g ?s1] gn by simp
        with s1 have s2: "same_inputs env files (field_name f) s ?s2"
          by (rule same_inputs_trans)
        have td: "fst (trial_data env files ?s1 (Inr g) t) = fst (trial_data env files s (Inr g) t)"
          by (rule trial_data_same_inputs[OF s1 gn])
        have an2: "analysis ?s2 = Some a" by (simp add: field_trial_data_analysis an)
        show ?thesis
        proof (cases "fst (trial_data env files s (Inr g) t)")
          case (Inl e)
          with td have "set_trial_data env files ?s1 g t = (Some e, g, ?s2)"
            by (simp add: set_trial_data_unfold)
          with Inl gn s2 show ?thesis
            by (simp add: try_trial_def ld an isolated_trial_def mf a gf)
        next
          case (Inr data)
          note dt = Inr
          obtain err a' f' where si: "set_items data (Some a, g) = (err, a', f')"
            by (cases "set_items data (Some a, g)")
          from set_items_names[OF si] obtain a2 where
            a2: "a' = Some a2" "ana_name a2 = ana_name a" and fn: "field_name f' = field_name g"
            by blast
          let ?s3 = "put_back (Some a2, f') ?s2"
          have st: "set_trial_data env files ?s1 g t = (err, f', ?s3)"
            using td dt si a2 by (simp add: set_trial_data_unfold an)
          have s3: "same_inputs env files (field_name f) s ?s3"
            by (rule same_inputs_put_back[OF s2])
          have an3: "analysis ?s3 = Some a2" by (rule analysis_put_back[OF an2 a2(2)])
          show ?thesis
          proof (cases err)
            case (Some e)
            with st si a2 fn gn s3 dt show ?thesis
              by (simp add: try_trial_def ld an isolated_trial_def mf a gf)
          next
            case None
            show ?thesis
            proof (cases "Field_run env a2 f' t")
              case (Inl e)
              with None st si a2 fn gn s3 dt an3 show ?thesis
                by (simp add: try_trial_def ld an isolated_trial_def mf a gf)
            next
              case (Inr q)
              obtain ci ghg where q: "q = (ci, ghg)" by (cases q)
              let ?f3 = "f'\<lparr>carbon_intensity := ci, emissions := ghg\<rparr>"
              have s4: "same_inputs env files (field_name f) s (put_back (Some a2, ?f3) ?s3)"
                by (rule same_inputs_put_back[OF s3])
              from None st si a2 fn gn s4 dt an3 Inr q show ?thesis
                by (simp add: try_trial_def ld an isolated_trial_def mf a gf Let_def)
            qed
          qed
        qed
      qed
    qed
  qed
qed

lemma isolated_trial_same_inputs:
  assumes "same_inputs env files name s s'"
  shows "isolated_trial env files s' name t = isolated_trial env files s name t"
proof -
  from assms have eqs: "model_file s' = model_file s" "model_xml_string s' = model_xml_string s"
    "analysis_name s' = analysis_name s" "field_names s' = field_names s"
    by (simp_all add: same_inputs_def)
  have td: "\<And>m a g. Analysis_get_field m a name = Inr g \<Longrightarrow>
     fst (trial_data env files s' (Inr g) t) = fst (trial_data env files s (Inr g) t)"
    by (rule trial_data_same_inputs[OF assms]) (rule Analysis_get_field_name)
  show ?thesis
    unfolding isolated_trial_def eqs
    by (auto split: sum.splits prod.splits option.splits simp: td)
qed

lemma isolated_trial_model:
  "isolated_trial env files (s\<lparr>model := m\<rparr>) name t = isolated_trial env files s name t"
  by (rule isolated_trial_same_inputs[OF same_inputs_model])

lemma try_trial_Some:
  assumes "isolated_trial env files s (field_name f) t = Inl e"
  shows "\<exists>f' s'. try_trial env files s f t = (Some e, f', s', files)
      \<and> field_name f' = field_name f \<and> same_inputs env files (field_name f) s s'"
  using try_trial_summary[of env files s f t] assms
  by (auto split: option.splits)

lemma try_trial_None:
  assumes "isolated_trial env files s (field_name f) t = Inr r"
  shows "\<exists>f' s'. try_trial env files s f t = (None, f', s', files)
      \<and> field_name f' = field_name f \<and> same_inputs env files (field_name f) s s'
      \<and> r = result_tuple env t f'"
  using try_trial_summary[of env files s f t] assms
  by (auto split: option.splits)


lemma isolated_trial_width: "isolated_trial env files s name t = Inr r \<Longrightarrow> length (snd r) = 6"
proof -
  assume a: "isolated_trial env files s name t = Inr r"
  let ?f = "\<lparr>field_name = name, field_attr_dict = [], field_processes = [], field_enabled = True,
            carbon_intensity = 0,
            emissions = \<lparr>Combustion = 0, Land_use = 0, Venting = 0, Flaring = 0,
                         Fugitives = 0, Other = 0\<rparr>\<rparr>"
  from a have "isolated_trial env files s (field_name ?f) t = Inr r" by simp
  from try_trial_None[OF this] show ?thesis by (auto simp: result_tuple_def Let_def)
qed

lemma trial_loop_isolated:
  assumes "rs_files st = files" "same_inputs env files name s0 (rs_self st)"
    "field_name (rs_field st) = name"
  shows "results (trial_loop env nums st) = results st @ isolated_results env files s0 name nums
     \<and> failures (trial_loop env nums st) = failures st @ isolated_failures env files s0 name nums
     \<and> completed (trial_loop env nums st)
          = completed st + length (isolated_results env files s0 name nums)
     \<and> rs_files (trial_loop env nums st) = files
     \<and> same_inputs env files name s0 (rs_self (trial_loop env nums st))
     \<and> field_name (rs_field (trial_loop env nums st)) = name"
  using assms
proof (induction nums arbitrary: st)
  case Nil
  then show ?case by (simp add: isolated_results_def isolated_failures_def)
next
  case (Cons t nums)
  have iso: "isolated_trial env files (rs_self st) name t = isolated_trial env files s0 name t"
    by (rule isolated_trial_same_inputs[OF Cons.prems(2)])
  show ?case
  proof (cases "isolated_trial env files s0 name t")
    case (Inl e)
    with iso Cons.prems(3) have "isolated_trial env files (rs_self st) (field_name (rs_field st)) t = Inl e"
      by simp
    from try_trial_Some[OF this] obtain f' s' where
      tt: "try_trial env files (rs_self st) (rs_field st) t = (Some e, f', s', files)"
      and fn: "field_name f' = field_name (rs_field st)"
      and si: "same_inputs env files (field_name (rs_field st)) (rs_self st) s'" by blast
    let ?st1 = "st\<lparr>rs_files := files, rs_self := s', rs_field := f',
                failures := failures st @ [(t, e)]\<rparr>"
    have step: "trial_loop env (t # nums) st = trial_loop env nums ?st1"
      using tt Cons.prems(1) by simp
    have p: "rs_files ?st1 = files" "same_inputs env files name s0 (rs_self ?st1)"
      "field_name (rs_field ?st1) = name"
      using fn si Cons.prems same_inputs_trans by auto
    from Cons.IH[OF p] Inl show ?thesis
      unfolding step
      by (simp add: isolated_results_def isolated_failures_def)
  next
    case (Inr r)
    with iso Cons.prems(3) have "isolated_trial env files (rs_self st) (field_name (rs_field st)) t = Inr r"
      by simp
    from try_trial_None[OF this] obtain f' s' where
      tt: "try_trial env files (rs_self st) (rs_field st) t = (None, f', s', files)"
      and fn: "field_name f' = field_name (rs_field st)"
      and si: "same_inputs env files (field_name (rs_field st)) (rs_self st) s'"
      and r: "r = result_tuple env t f'" by blast
    let ?st1 = "st\<lparr>rs_files := files, rs_self := s', rs_field := f',
                completed := completed st + 1,
                results := results st @ [result_tuple env t f']\<rparr>"
    have step: "trial_loop env (t # nums) st = trial_loop env nums ?st1"
      using tt Cons.prems(1) by simp
    have p: "rs_files ?st1 = files" "same_inputs env files name s0 (rs_self ?st1)"
      "field_name (rs_field ?st1) = name"
      using fn si Cons.prems same_inputs_trans by auto
    from Cons.IH[OF p] Inr r show ?thesis
      unfolding step
      by (simp add: isolated_results_def isolated_failures_def)
  qed
qed

lemma run_trials_isolated:
  "results (run_trials env files s f nums)
      = isolated_results env files s (field_name f) (requested_trials s nums)
   \<and> failures (run_trials env files s f nums)
      = isolated_failures env files s (field_name f) (requested_trials s nums)
   \<and> completed (run_trials env files s f nums)
      = length (isolated_results env files s (field_name f) (requested_trials s nums))
   \<and> rs_files (run_trials env files s f nums) = files
   \<and> sim_pathname (rs_self (run_trials env files s f nums)) = sim_pathname s
   \<and> field_name (rs_field (run_trials env files s f nums)) = field_name f"
  using trial_loop_isolated[of "\<lparr>rs_files = files, rs_self = s, rs_field = f,
        completed = 0, results = [], failures = []\<rparr>" files env "field_name f" s
        "requested_trials s nums"]
  by (simp add: run_trials_def same_inputs_refl) (simp add: same_inputs_def)



lemma isolated_results_width:
  "list_all (\<lambda>r. length (snd r) = 6) (isolated_results env files s name nums)"
  by (induction nums)
     (auto simp: isolated_results_def map_filter_simps isolated_trial_width split: sum.splits)


lemma isolated_results_concat:
  "isolated_results env files s name nums
     = concat (map (\<lambda>t. isolated_results env files s name [t]) nums)"
  by (induction nums)
     (auto simp: isolated_results_def map_filter_simps split: sum.splits)

lemma isolated_failures_concat:
  "isolated_failures env files s name nums
     = concat (map (\<lambda>t. isolated_failures env files s name [t]) nums)"
  by (induction nums)
     (auto simp: isolated_failures_def map_filter_simps split: sum.splits)

lemma requested_trials_model: "requested_trials (s\<lparr>model := m\<rparr>) nums = requested_trials s nums"
  by (simp add: requested_trials_def split: option.splits)

lemma isolated_results_model:
  "isolated_results env files (s\<lparr>model := m\<rparr>) name nums = isolated_results env files s name nums"
  by (simp add: isolated_results_def isolated_trial_model)

lemma isolated_failures_model:
  "isolated_failures env files (s\<lparr>model := m\<rparr>) name nums = isolated_failures env files s name nums"
  by (simp add: isolated_failures_def isolated_trial_model)

text \<open>
  C1. The rows of results and of failures that \<^verbatim>\<open>run_field\<close> collects for a batch are
  those of the contract \<open>isolated_trial\<close>, trial by trial: every trial loads the model
  from the cached template through \<^verbatim>\<open>load_model\<close>, resolves the field in it by name,
  and only then applies the trial data and runs the evaluator. That contract does not
  read the model the simulation holds, so the rows are the same whatever model an
  earlier trial or an earlier run has left there, and the rows of a batch are the rows of
  its trials run one at a time, in the same order.
\<close>

theorem run_field_trial_isolation:
  "results (run_trials env files self field trial_nums)
      = isolated_results env files self (field_name field) (requested_trials self trial_nums)
   \<and> failures (run_trials env files self field trial_nums)
      = isolated_failures env files self (field_name field) (requested_trials self trial_nums)
   \<and> isolated_trial env files (self\<lparr>model := m\<rparr>) name t = isolated_trial env files self name t
   \<and> results (run_trials env files (self\<lparr>model := m\<rparr>) field trial_nums)
      = results (run_trials env files self field trial_nums)
   \<and> failures (run_trials env files (self\<lparr>model := m\<rparr>) field trial_nums)
      = failures (run_trials env files self field trial_nums)
   \<and> results (run_trials env files self field (Some nums))
      = concat (map (\<lambda>t. results (run_trials env files self field (Some [t]))) nums)
   \<and> failures (run_trials env files self field (Some nums))
      = concat (map (\<lambda>t. failures (run_trials env files self field (Some [t]))) nums)"
proof -
  have c: "results (run_trials env files self field (Some nums))
      = concat (map (\<lambda>t. results (run_trials env files self field (Some [t]))) nums)"
    using isolated_results_concat[of env files self "field_name field" nums]
    by (simp add: run_trials_isolated requested_trials_def)
  have d: "failures (run_trials env files self field (Some nums))
      = concat (map (\<lambda>t. failures (run_trials env files self field (Some [t]))) nums)"
    using isolated_failures_concat[of env files self "field_name field" nums]
    by (simp add: run_trials_isolated requested_trials_def)
  have a: "results (run_trials env files self field trial_nums)
      = isolated_results env files self (field_name field) (requested_trials self trial_nums)"
    and b: "failures (run_trials env files self field trial_nums)
      = isolated_failures env files self (field_name field) (requested_trials self trial_nums)"
    by (simp_all add: run_trials_isolated)
  have e: "results (run_trials env files (self\<lparr>model := m\<rparr>) field trial_nums)
      = results (run_trials env files self field trial_nums)"
    and f: "failures (run_trials env files (self\<lparr>model := m\<rparr>) field trial_nums)
      = failures (run_trials env files self field trial_nums)"
    by (simp_all add: run_trials_isolated requested_trials_model
          isolated_results_model isolated_failures_model)
  from a b e f c d isolated_trial_model[where env = env and files = files and s = self
      and m = m and name = name and t = t] show ?thesis
    by blast
qed


theorem run_field_trial_isolation_witness:
  "results (run_trials demo_env demo_files (demo_sim\<lparr>model := None\<rparr>) (demo_field ''f2'' False) None)
     = [(0, [2, 1, 1, 0, 0, 0]), (2, [2, 1, 1, 0, 0, 0])]
   \<and> failures (run_trials demo_env demo_files (demo_sim\<lparr>model := None\<rparr>) (demo_field ''f2'' False) None)
     = [(1, Raised ''no convergence'')]"
proof -
  have r: "results (run_trials demo_env demo_files demo_sim (demo_field ''f2'' False) None)
     = [(0, [2, 1, 1, 0, 0, 0]), (2, [2, 1, 1, 0, 0, 0])]" by code_simp
  have f: "failures (run_trials demo_env demo_files demo_sim (demo_field ''f2'' False) None)
     = [(1, Raised ''no convergence'')]" by code_simp
  from run_field_trial_isolation[where env = demo_env and files = demo_files and self = demo_sim
         and field = "demo_field ''f2'' False" and trial_nums = None and m = None] r f
  show ?thesis by simp
qed




lemma result_paths_differ: "pathjoin d RESULTS_CSV \<noteq> pathjoin d FAILURES_CSV"
  by (simp add: pathjoin_def RESULTS_CSV_def FAILURES_CSV_def)

lemma save_trial_results_files:
  "save_trial_results env files s f (cols, records) fails (pathjoin (field_dir s f) RESULTS_CSV)
      = Some (File (join '','' cols @ newline @ concat (map (record_line env) records)))
   \<and> save_trial_results env files s f (cols, records) fails (failures_path s f)
      = Some (File (''trial_num,message'' @ newline @ concat (map failure_line fails)))"
  using result_paths_differ[of "field_dir s f"]
  by (simp add: save_trial_results_def results_path_def failures_path_def write_file_def
        records_to_csv_def Let_def)

lemma field_dir_run_trials:
  "field_dir (rs_self (run_trials env files s f nums)) (rs_field (run_trials env files s f nums))
     = field_dir s f"
  by (simp add: field_dir_def run_trials_isolated)

text \<open>
  C7. \<^verbatim>\<open>save_trial_results\<close> writes the results file as the line of the column labels
  followed by one line per record, and the failures file as the line
  \<^verbatim>\<open>trial_num,message\<close> followed by one line per failure, the message between double
  quotes. As \<^verbatim>\<open>run_field\<close> calls it, the labels are
  \<^verbatim>\<open>trial_num,CI,total_GHG,combustion,land_use,VFF,other\<close>, there is one record per
  completed trial, made of the trial number and the six metrics and of no index, and one
  failure line per failed trial.
\<close>

theorem save_trial_results_format:
  "save_trial_results env files self field (cols, records) fails
       (pathjoin (field_dir self field) RESULTS_CSV)
      = Some (File (join '','' cols @ newline @ concat (map (record_line env) records)))
   \<and> save_trial_results env files self field (cols, records) fails (failures_path self field)
      = Some (File (''trial_num,message'' @ newline @ concat (map failure_line fails)))
   \<and> snd (snd (run_field env files self field trial_nums))
       (pathjoin (field_dir self field) RESULTS_CSV)
      = Some (File (''trial_num,CI,total_GHG,combustion,land_use,VFF,other'' @ newline
                     @ concat (map (record_line env)
                         (results (run_trials env files self field trial_nums)))))
   \<and> length (results (run_trials env files self field trial_nums))
      = fst (run_field env files self field trial_nums)
   \<and> list_all (\<lambda>r. length (snd r) = 6) (results (run_trials env files self field trial_nums))
   \<and> record_line env (t, [v1, v2, v3, v4, v5, v6])
      = str_int t @ '','' @ repr_float env v1 @ '','' @ repr_float env v2 @ '',''
          @ repr_float env v3 @ '','' @ repr_float env v4 @ '','' @ repr_float env v5 @ '',''
          @ repr_float env v6 @ newline
   \<and> snd (snd (run_field env files self field trial_nums)) (failures_path self field)
      = Some (File (''trial_num,message'' @ newline
                     @ concat (map failure_line
                         (failures (run_trials env files self field trial_nums)))))
   \<and> failure_line (t, e) = str_int t @ '','' @ [CHR 0x22] @ str_error e @ [CHR 0x22] @ newline"
proof -
  let ?st = "run_trials env files self field trial_nums"
  have p: "failures_path (rs_self ?st) (rs_field ?st) = failures_path self field"
    by (simp add: failures_path_def field_dir_run_trials)
  have r: "snd (snd (run_field env files self field trial_nums))
       (pathjoin (field_dir self field) RESULTS_CSV)
      = Some (File (''trial_num,CI,total_GHG,combustion,land_use,VFF,other'' @ newline
                     @ concat (map (record_line env) (results ?st))))"
    using save_trial_results_files[of env "rs_files ?st" "rs_self ?st" "rs_field ?st"
            "[''trial_num'', ''CI'', ''total_GHG'', ''combustion'', ''land_use'', ''VFF'', ''other'']"
            "results ?st" "failures ?st"]
    by (simp add: run_field_def Let_def field_dir_run_trials)
  have f: "snd (snd (run_field env files self field trial_nums)) (failures_path self field)
      = Some (File (''trial_num,message'' @ newline @ concat (map failure_line (failures ?st))))"
    using save_trial_results_files[of env "rs_files ?st" "rs_self ?st" "rs_field ?st"
            "[''trial_num'', ''CI'', ''total_GHG'', ''combustion'', ''land_use'', ''VFF'', ''other'']"
            "results ?st" "failures ?st"]
    by (simp add: run_field_def Let_def p)
  have n: "length (results ?st) = fst (run_field env files self field trial_nums)"
    by (simp add: run_field_def Let_def run_trials_isolated)
  have w: "list_all (\<lambda>r. length (snd r) = 6) (results ?st)"
    by (simp add: run_trials_isolated isolated_results_width)
  have l: "record_line env (t, [v1, v2, v3, v4, v5, v6])
      = str_int t @ '','' @ repr_float env v1 @ '','' @ repr_float env v2 @ '',''
          @ repr_float env v3 @ '','' @ repr_float env v4 @ '','' @ repr_float env v5 @ '',''
          @ repr_float env v6 @ newline"
    by (simp add: record_line_def)
  have fl: "failure_line (t, e) = str_int t @ '','' @ [CHR 0x22] @ str_error e @ [CHR 0x22] @ newline"
    by (simp add: failure_line_def)
  from save_trial_results_files[of env files self field cols records fails] r f n w l fl
  show ?thesis by blast
qed


theorem save_trial_results_format_witness:
  "snd (snd (run_field demo_env demo_files demo_sim (demo_field ''f2'' False) None)) ''sim/f2/results.csv''
     = Some (File (''trial_num,CI,total_GHG,combustion,land_use,VFF,other'' @ newline
                    @ ''0,2.0,1.0,1.0,0.0,0.0,0.0'' @ newline
                    @ ''2,2.0,1.0,1.0,0.0,0.0,0.0'' @ newline))
   \<and> snd (snd (run_field demo_env demo_files demo_sim (demo_field ''f2'' False) None)) ''sim/f2/failures.csv''
     = Some (File (''trial_num,message'' @ newline
                    @ ''1,'' @ [CHR 0x22] @ ''no convergence'' @ [CHR 0x22] @ newline))"
proof -
  have r: "concat (map (record_line demo_env) (results (run_trials demo_env demo_files demo_sim (demo_field ''f2'' False) None)))
     = ''0,2.0,1.0,1.0,0.0,0.0,0.0'' @ newline @ ''2,2.0,1.0,1.0,0.0,0.0,0.0'' @ newline"
    by code_simp
  have f: "concat (map failure_line (failures (run_trials demo_env demo_files demo_sim (demo_field ''f2'' False) None)))
     = ''1,'' @ [CHR 0x22] @ ''no convergence'' @ [CHR 0x22] @ newline"
    by code_simp
  have p: "pathjoin (field_dir demo_sim (demo_field ''f2'' False)) RESULTS_CSV = ''sim/f2/results.csv''"
    "failures_path demo_sim (demo_field ''f2'' False) = ''sim/f2/failures.csv''"
    by code_simp+
  from save_trial_results_format[where env = demo_env and files = demo_files and self = demo_sim
         and field = "demo_field ''f2'' False" and trial_nums = None]
  show ?thesis unfolding r f p by blast
qed

subsection \<open>The cache of trial data\<close>

lemma field_trial_data_cached:
  "trial_data_df self = Some df \<Longrightarrow> field_trial_data env files self (Inr B) = (Inr df, self)"
  by (simp add: field_trial_data_def)

lemma field_trial_data_cached_name:
  "trial_data_df self = Some df \<Longrightarrow> model self = Some m \<Longrightarrow> analysis self = Some a \<Longrightarrow>
   Analysis_get_field m a name = Inr B \<Longrightarrow>
   field_trial_data env files self (Inl name) = (Inr df, self)"
  by (simp add: field_trial_data_def)

lemma trial_data_cached:
  "trial_data_df self = Some df \<Longrightarrow>
   trial_data env files self (Inr B) t =
     (case map_of (df_rows df) t of
        None \<Rightarrow> Inl (McsSystemError (''Trial '' @ str_int t @ '' was not found in ''
                        @ quoted (pathjoin (field_dir self B) TRIAL_DATA_CSV)))
      | Some vals \<Rightarrow> Inr (zip (df_columns df) vals), self)"
  by (simp add: trial_data_def field_trial_data_cached trial_data_path_def Let_def split: option.splits)

lemma generate_field_Inr:
  assumes "fst (generate_field env reg corr files s f) = Inr ()"
  shows "\<exists>rvs cols df. collect (analysis s) f (distributions reg) = Inr (rvs, cols)
           \<and> lhs env rvs (trials s) cols corr = Inr df
           \<and> fst (snd (generate_field env reg corr files s f))
               = s\<lparr>trial_data_df := Some (df\<lparr>df_index_name := Some ''trial_num''\<rparr>)\<rparr>"
  using assms
  by (auto simp: generate_field_def Let_def split: sum.splits prod.splits if_splits)

lemma generate_loop_last:
  assumes "fst (generate_loop env reg corr files s (others @ [A])) = Inr ()"
  shows "\<exists>rvs cols df. collect (analysis s) A (distributions reg) = Inr (rvs, cols)
           \<and> lhs env rvs (trials s) cols corr = Inr df
           \<and> trial_data_df (fst (snd (generate_loop env reg corr files s (others @ [A]))))
               = Some (df\<lparr>df_index_name := Some ''trial_num''\<rparr>)"
  using assms
proof (induction others arbitrary: s files)
  case Nil
  obtain r s' files' where g: "generate_field env reg corr files s A = (r, s', files')"
    by (cases "generate_field env reg corr files s A") auto
  from Nil g have r: "r = Inr ()" by (auto split: sum.splits)
  from generate_field_Inr[of env reg corr files s A] g r show ?case
    by auto
next
  case (Cons B others)
  obtain r s' files' where g: "generate_field env reg corr files s B = (r, s', files')"
    by (cases "generate_field env reg corr files s B") auto
  from Cons.prems g have r: "r = Inr ()" by (auto split: sum.splits)
  from generate_field_Inr[of env reg corr files s B] g r obtain df where
    s': "s' = s\<lparr>trial_data_df := Some df\<rparr>" by auto
  from Cons.prems g r have "fst (generate_loop env reg corr files' s' (others @ [A])) = Inr ()"
    by simp
  from Cons.IH[OF this] g r s' show ?case
    by (simp add: analysis_trial_data_df)
qed

lemma field_trial_data_populates:
  assumes "trial_data_df self = None"
    and "read_file files (pathjoin (field_dir self A) TRIAL_DATA_CSV) = Inr body"
    and "read_csv env body = Inr df"
  shows "field_trial_data env files self (Inr A) = (Inr df, self\<lparr>trial_data_df := Some df\<rparr>)"
proof -
  from assms(2) have "lexists files (pathjoin (field_dir self A) TRIAL_DATA_CSV)"
    by (auto simp: read_file_def lexists_def split: option.splits)
  with assms show ?thesis
    by (simp add: field_trial_data_def trial_data_path_def Let_def)
qed

lemma trial_data_state:
  "snd (trial_data env files self field t) = snd (field_trial_data env files self field)"
  by (auto simp: trial_data_def split: prod.splits sum.splits option.splits)

lemma field_dir_trial_data_df: "field_dir (s\<lparr>trial_data_df := x\<rparr>) f = field_dir s f"
  by (simp add: field_dir_def)

text \<open>
  C9. Once \<^verbatim>\<open>trial_data_df\<close> holds a table, \<^verbatim>\<open>field_trial_data\<close> returns that table
  for any field, given as an object or by a name that resolves, and leaves the
  simulation as it is; \<^verbatim>\<open>trial_data\<close> takes the row of the trial from that table (and
  reports the trial missing when that table has no such row). Both results are the same
  for every file system, so the file of the field is not read. A run of \<^verbatim>\<open>generate\<close>
  that does not raise leaves in the cache the table sampled for the last of the chosen
  fields. With an empty cache, \<^verbatim>\<open>field_trial_data\<close> for a field \<open>A\<close> whose file is read
  and parsed returns that table and stores it in \<^verbatim>\<open>trial_data_df\<close>, and so does
  \<^verbatim>\<open>trial_data\<close>; a later call of either for a field \<open>B\<close>, on any file system, answers
  from the table of \<open>A\<close>.
\<close>

theorem trial_data_cache_not_keyed_by_field:
  "(trial_data_df self = Some df \<longrightarrow>
      field_trial_data env files self (Inr B) = (Inr df, self)
      \<and> trial_data env files self (Inr B) t =
           (case map_of (df_rows df) t of
              None \<Rightarrow> Inl (McsSystemError (''Trial '' @ str_int t @ '' was not found in ''
                              @ quoted (pathjoin (field_dir self B) TRIAL_DATA_CSV)))
            | Some vals \<Rightarrow> Inr (zip (df_columns df) vals), self)
      \<and> (model self = Some m \<and> analysis self = Some a \<and> Analysis_get_field m a name = Inr B \<longrightarrow>
           field_trial_data env files self (Inl name) = (Inr df, self)))
   \<and> (chosen_fields self0 = Inr (others @ [A])
        \<and> fst (generate env instances files0 self0 corr_mat) = Inr () \<longrightarrow>
        (\<exists>rvs cols df0.
            collect (analysis self0) A (distributions instances) = Inr (rvs, cols)
            \<and> lhs env rvs (trials self0) cols corr_mat = Inr df0
            \<and> trial_data_df (fst (snd (generate env instances files0 self0 corr_mat)))
                = Some (df0\<lparr>df_index_name := Some ''trial_num''\<rparr>)))
   \<and> (trial_data_df self1 = None
        \<and> read_file files1 (pathjoin (field_dir self1 A1) TRIAL_DATA_CSV) = Inr body
        \<and> read_csv env body = Inr df1 \<longrightarrow>
        field_trial_data env files1 self1 (Inr A1) = (Inr df1, self1\<lparr>trial_data_df := Some df1\<rparr>)
        \<and> snd (trial_data env files1 self1 (Inr A1) t1) = self1\<lparr>trial_data_df := Some df1\<rparr>
        \<and> field_trial_data env files2 (snd (field_trial_data env files1 self1 (Inr A1))) (Inr B1)
             = (Inr df1, self1\<lparr>trial_data_df := Some df1\<rparr>)
        \<and> trial_data env files2 (snd (trial_data env files1 self1 (Inr A1) t1)) (Inr B1) t2
             = (case map_of (df_rows df1) t2 of
                  None \<Rightarrow> Inl (McsSystemError (''Trial '' @ str_int t2 @ '' was not found in ''
                                  @ quoted (pathjoin (field_dir self1 B1) TRIAL_DATA_CSV)))
                | Some vals \<Rightarrow> Inr (zip (df_columns df1) vals),
                self1\<lparr>trial_data_df := Some df1\<rparr>))"
proof (intro conjI impI)
  assume h: "trial_data_df self1 = None
        \<and> read_file files1 (pathjoin (field_dir self1 A1) TRIAL_DATA_CSV) = Inr body
        \<and> read_csv env body = Inr df1"
  then have p: "field_trial_data env files1 self1 (Inr A1)
                  = (Inr df1, self1\<lparr>trial_data_df := Some df1\<rparr>)"
    using field_trial_data_populates[of self1 files1 A1 body env df1] by blast
  have c: "trial_data_df (self1\<lparr>trial_data_df := Some df1\<rparr>) = Some df1" by simp
  show "field_trial_data env files1 self1 (Inr A1) = (Inr df1, self1\<lparr>trial_data_df := Some df1\<rparr>)"
    by (rule p)
  show "snd (trial_data env files1 self1 (Inr A1) t1) = self1\<lparr>trial_data_df := Some df1\<rparr>"
    by (simp add: trial_data_state p)
  show "field_trial_data env files2 (snd (field_trial_data env files1 self1 (Inr A1))) (Inr B1)
             = (Inr df1, self1\<lparr>trial_data_df := Some df1\<rparr>)"
    by (simp add: p field_trial_data_cached[OF c])
  show "trial_data env files2 (snd (trial_data env files1 self1 (Inr A1) t1)) (Inr B1) t2
             = (case map_of (df_rows df1) t2 of
                  None \<Rightarrow> Inl (McsSystemError (''Trial '' @ str_int t2 @ '' was not found in ''
                                  @ quoted (pathjoin (field_dir self1 B1) TRIAL_DATA_CSV)))
                | Some vals \<Rightarrow> Inr (zip (df_columns df1) vals),
                self1\<lparr>trial_data_df := Some df1\<rparr>)"
    by (simp add: trial_data_state p trial_data_cached[OF c] field_dir_trial_data_df
          split: option.splits)
next
  assume c: "chosen_fields self0 = Inr (others @ [A])
        \<and> fst (generate env instances files0 self0 corr_mat) = Inr ()"
  then have cf: "chosen_fields self0 = Inr (others @ [A])"
    and g: "fst (generate env instances files0 self0 corr_mat) = Inr ()" by simp_all
  have e: "generate env instances files0 self0 corr_mat
             = generate_loop env instances corr_mat files0 self0 (others @ [A])"
    by (simp add: generate_def cf)
  from g have "fst (generate_loop env instances corr_mat files0 self0 (others @ [A])) = Inr ()"
    by (simp add: e)
  from generate_loop_last[OF this]
  show "\<exists>rvs cols df0.
            collect (analysis self0) A (distributions instances) = Inr (rvs, cols)
            \<and> lhs env rvs (trials self0) cols corr_mat = Inr df0
            \<and> trial_data_df (fst (snd (generate env instances files0 self0 corr_mat)))
                = Some (df0\<lparr>df_index_name := Some ''trial_num''\<rparr>)"
    by (simp add: e)
qed (simp_all add: field_trial_data_cached field_trial_data_cached_name trial_data_cached)


theorem trial_data_cache_not_keyed_by_field_witness:
  "chosen_fields demo_sim = Inr ([demo_field ''f1'' True] @ [demo_field ''f2'' False])
   \<and> fst (generate demo_env demo_registry demo_files demo_sim None) = Inr ()
   \<and> trial_data_df (fst (snd (generate demo_env demo_registry demo_files demo_sim None))) = Some demo_generated
   \<and> field_trial_data demo_env demo_files (fst (snd (generate demo_env demo_registry demo_files demo_sim None)))
        (Inr (demo_field ''f1'' True))
       = (Inr demo_generated, fst (snd (generate demo_env demo_registry demo_files demo_sim None)))
   \<and> trial_data demo_env demo_files (fst (snd (generate demo_env demo_registry demo_files demo_sim None)))
        (Inr (demo_field ''f1'' True)) 1
       = (Inr [(''WOR'', 0), (''API'', 0)], fst (snd (generate demo_env demo_registry demo_files demo_sim None)))
   \<and> trial_data_df demo_sim = None
   \<and> read_file demo_files (pathjoin (field_dir demo_sim (demo_field ''f2'' False)) TRIAL_DATA_CSV)
        = Inr ''table''
   \<and> read_csv demo_env ''table'' = Inr demo_table
   \<and> \<not> lexists demo_files (pathjoin (field_dir demo_sim (demo_field ''f1'' True)) TRIAL_DATA_CSV)
   \<and> field_trial_data demo_env demo_files demo_sim (Inr (demo_field ''f2'' False))
        = (Inr demo_table, demo_sim\<lparr>trial_data_df := Some demo_table\<rparr>)
   \<and> field_trial_data demo_env demo_files
          (snd (field_trial_data demo_env demo_files demo_sim (Inr (demo_field ''f2'' False))))
          (Inr (demo_field ''f1'' True))
        = (Inr demo_table, demo_sim\<lparr>trial_data_df := Some demo_table\<rparr>)
   \<and> fst (trial_data demo_env demo_files
          (snd (trial_data demo_env demo_files demo_sim (Inr (demo_field ''f2'' False)) 0))
          (Inr (demo_field ''f1'' True)) 2)
        = Inr (zip (df_columns demo_table) (snd (df_rows demo_table ! 2)))"
proof -
  let ?s = "fst (snd (generate demo_env demo_registry demo_files demo_sim None))"
  have c: "chosen_fields demo_sim = Inr ([demo_field ''f1'' True] @ [demo_field ''f2'' False])"
    by code_simp
  have g: "fst (generate demo_env demo_registry demo_files demo_sim None) = Inr ()" by code_simp
  have k: "collect (analysis demo_sim) (demo_field ''f2'' False) (distributions demo_registry)
     = Inr ([Frozen ''uniform'' [(''min'', Num 0), (''max'', Num 10)],
             Frozen ''normal'' [(''mean'', Num 30), (''stdev'', Num 2)]], [''WOR'', ''API''])"
    by code_simp
  have l: "lhs demo_env [Frozen ''uniform'' [(''min'', Num 0), (''max'', Num 10)],
             Frozen ''normal'' [(''mean'', Num 30), (''stdev'', Num 2)]] (trials demo_sim)
             [''WOR'', ''API''] None
     = Inr (demo_generated\<lparr>df_index_name := None\<rparr>)"
    by code_simp
  have n: "(demo_generated\<lparr>df_index_name := None\<rparr>)\<lparr>df_index_name := Some ''trial_num''\<rparr>
             = demo_generated"
    by (simp add: demo_generated_def)
  from trial_data_cache_not_keyed_by_field
         [where self0 = demo_sim and others = "[demo_field ''f1'' True]"
            and A = "demo_field ''f2'' False" and env = demo_env and instances = demo_registry
            and files0 = demo_files and corr_mat = None, THEN conjunct2, THEN conjunct1,
          rule_format, OF conjI[OF c g]] k l n
  have t: "trial_data_df ?s = Some demo_generated" by auto
  note u = trial_data_cache_not_keyed_by_field
         [where self = ?s and df = demo_generated and env = demo_env and files = demo_files
            and B = "demo_field ''f1'' True" and t = 1, THEN conjunct1, rule_format, OF t]
  have r: "map_of (df_rows demo_generated) 1 = Some [0, 0]"
    "zip (df_columns demo_generated) [0, 0] = [(''WOR'', 0), (''API'', 0)]"
    by (simp_all add: demo_generated_def)
  from u have u1: "field_trial_data demo_env demo_files ?s (Inr (demo_field ''f1'' True))
       = (Inr demo_generated, ?s)" by blast
  from u have "trial_data demo_env demo_files ?s (Inr (demo_field ''f1'' True)) 1
       = (case map_of (df_rows demo_generated) 1 of
              None \<Rightarrow> Inl (McsSystemError (''Trial '' @ str_int 1 @ '' was not found in ''
                              @ quoted (pathjoin (field_dir ?s (demo_field ''f1'' True)) TRIAL_DATA_CSV)))
            | Some vals \<Rightarrow> Inr (zip (df_columns demo_generated) vals), ?s)" by blast
  then have u2: "trial_data demo_env demo_files ?s (Inr (demo_field ''f1'' True)) 1
       = (Inr [(''WOR'', 0), (''API'', 0)], ?s)"
    by (simp only: r option.case)
  have n0: "trial_data_df demo_sim = None" by (simp add: demo_sim_def)
  have rf: "read_file demo_files (pathjoin (field_dir demo_sim (demo_field ''f2'' False)) TRIAL_DATA_CSV)
        = Inr ''table''" by code_simp
  have rc: "read_csv demo_env ''table'' = Inr demo_table" by code_simp
  have nx: "\<not> lexists demo_files (pathjoin (field_dir demo_sim (demo_field ''f1'' True)) TRIAL_DATA_CSV)"
    by code_simp
  note v = trial_data_cache_not_keyed_by_field
         [where ?self1.0 = demo_sim and ?files1.0 = demo_files and ?A1.0 = "demo_field ''f2'' False"
            and body = "''table''" and env = demo_env and ?df1.0 = demo_table
            and ?files2.0 = demo_files and ?B1.0 = "demo_field ''f1'' True" and ?t1.0 = 0
            and ?t2.0 = 2,
          THEN conjunct2, THEN conjunct2, rule_format, OF conjI[OF n0 conjI[OF rf rc]]]
  have r2: "map_of (df_rows demo_table) 2 = Some (snd (df_rows demo_table ! 2))"
    by (simp add: demo_table_def)
  from v have v1: "field_trial_data demo_env demo_files demo_sim (Inr (demo_field ''f2'' False))
        = (Inr demo_table, demo_sim\<lparr>trial_data_df := Some demo_table\<rparr>)" by blast
  from v have v2: "field_trial_data demo_env demo_files
          (snd (field_trial_data demo_env demo_files demo_sim (Inr (demo_field ''f2'' False))))
          (Inr (demo_field ''f1'' True))
        = (Inr demo_table, demo_sim\<lparr>trial_data_df := Some demo_table\<rparr>)" by blast
  from v have "trial_data demo_env demo_files
          (snd (trial_data demo_env demo_files demo_sim (Inr (demo_field ''f2'' False)) 0))
          (Inr (demo_field ''f1'' True)) 2
        = (case map_of (df_rows demo_table) 2 of
                  None \<Rightarrow> Inl (McsSystemError (''Trial '' @ str_int 2 @ '' was not found in ''
                                  @ quoted (pathjoin (field_dir demo_sim (demo_field ''f1'' True)) TRIAL_DATA_CSV)))
                | Some vals \<Rightarrow> Inr (zip (df_columns demo_table) vals),
                demo_sim\<lparr>trial_data_df := Some demo_table\<rparr>)" by blast
  then have v3: "fst (trial_data demo_env demo_files
          (snd (trial_data demo_env demo_files demo_sim (Inr (demo_field ''f2'' False)) 0))
          (Inr (demo_field ''f1'' True)) 2)
        = Inr (zip (df_columns demo_table) (snd (df_rows demo_table ! 2)))"
    by (simp only: r2 option.case fst_conv)
  from c g t u1 u2 n0 rf rc nx v1 v2 v3 show ?thesis by blast
qed

subsection \<open>Creating a simulation\<close>

lemma load_model_None_files: "snd (snd (load_model env files s None)) = files"
  by (simp add: load_model_None split: sum.splits prod.splits option.splits)

lemma mkdirs_keeps: "files p = Some v \<Longrightarrow> mkdirs files d p = Some v"
  by (auto simp: mkdirs_def)

lemma save_trial_data_keeps:
  assumes "files p = Some v" "p \<noteq> pathjoin (pathjoin (sim_pathname s) (field_name f)) TRIAL_DATA_CSV"
  shows "save_trial_data env files s f p = Some v"
  using assms
  by (simp add: save_trial_data_def trial_data_path_def field_dir_def Let_def write_file_def
        mkdirs_keeps split: option.splits)

lemma generate_field_keeps:
  assumes "files p = Some v" "\<forall>fname. p \<noteq> pathjoin (pathjoin (sim_pathname s) fname) TRIAL_DATA_CSV"
  shows "snd (snd (generate_field env reg corr files s f)) p = Some v
         \<and> sim_pathname (fst (snd (generate_field env reg corr files s f))) = sim_pathname s"
  using assms
  by (auto simp: generate_field_def Let_def save_trial_data_keeps split: sum.splits prod.splits)

lemma generate_loop_keeps:
  assumes "files p = Some v" "\<forall>fname. p \<noteq> pathjoin (pathjoin (sim_pathname s) fname) TRIAL_DATA_CSV"
  shows "snd (snd (generate_loop env reg corr files s flds)) p = Some v"
  using assms
proof (induction flds arbitrary: files s)
  case Nil
  then show ?case by simp
next
  case (Cons f flds)
  obtain r s' files' where g: "generate_field env reg corr files s f = (r, s', files')"
    by (cases "generate_field env reg corr files s f") auto
  from generate_field_keeps[where files = files and p = p and v = v and s = s and env = env
         and reg = reg and corr = corr and f = f, OF Cons.prems] g
  have k: "files' p = Some v" "sim_pathname s' = sim_pathname s" by simp_all
  show ?case
  proof (cases r)
    case (Inl e)
    with g k show ?thesis by simp
  next
    case (Inr u)
    from Cons.IH[of files' s'] k Cons.prems(2) have "snd (snd (generate_loop env reg corr files' s' flds)) p = Some v"
      by simp
    with g Inr show ?thesis by simp
  qed
qed

lemma generate_keeps:
  assumes "files p = Some v" "\<forall>fname. p \<noteq> pathjoin (pathjoin (sim_pathname s) fname) TRIAL_DATA_CSV"
  shows "snd (snd (generate env reg files s corr)) p = Some v"
  using generate_loop_keeps[where files = files and p = p and v = v and s = s and env = env
          and reg = reg and corr = corr, OF assms] assms(1)
  by (simp add: generate_def split: sum.splits)

lemma no_slash_not_trial_path:
  "CHR ''/'' \<notin> set x \<Longrightarrow> pathjoin d x \<noteq> pathjoin (pathjoin d fname) TRIAL_DATA_CSV"
proof
  assume n: "CHR ''/'' \<notin> set x" and e: "pathjoin d x = pathjoin (pathjoin d fname) TRIAL_DATA_CSV"
  from e have "x = fname @ ''/'' @ TRIAL_DATA_CSV" by (simp add: pathjoin_def)
  then have "CHR ''/'' \<in> set x" by simp
  with n show False by simp
qed

lemma dir_not_trial_path: "d \<noteq> pathjoin (pathjoin d fname) TRIAL_DATA_CSV"
proof
  assume "d = pathjoin (pathjoin d fname) TRIAL_DATA_CSV"
  then have "length d = length (pathjoin (pathjoin d fname) TRIAL_DATA_CSV)" by simp
  then show False by (simp add: pathjoin_def)
qed

lemma Simulation_init_files:
  assumes d: "isdir files d" and x: "files (model_file_path d) = Some (File xml)"
    and n: "aname \<noteq> []"
  shows "isdir (snd (Simulation_init env reg files d (Some aname) ntrials fn None False)) d
     \<and> snd (Simulation_init env reg files d (Some aname) ntrials fn None False) (model_file_path d)
         = Some (File xml)
     \<and> snd (Simulation_init env reg files d (Some aname) ntrials fn None False) (pathjoin d META_DATA_FILE)
         = Some (File (json_dump env
              \<lparr>md_analysis_name = Some aname, md_trials = ntrials, md_field_names = fn\<rparr>))"
proof -
  let ?md = "\<lparr>md_analysis_name = Some aname, md_trials = ntrials, md_field_names = fn\<rparr>"
  let ?s2 = "\<lparr>sim_pathname = d, model_file = model_file_path d,
              model = None, model_xml_string = Some xml, trial_data_df = None,
              trials = ntrials, analysis_name = Some aname, field_names = fn,
              metadata = None\<rparr>"
  let ?s3 = "\<lparr>sim_pathname = d, model_file = model_file_path d,
              model = None, model_xml_string = Some xml, trial_data_df = None,
              trials = ntrials, analysis_name = Some aname, field_names = fn,
              metadata = Some ?md\<rparr>"
  let ?f4 = "write_file files (pathjoin d META_DATA_FILE) (json_dump env ?md)"
  have neq: "pathjoin d META_DATA_FILE \<noteq> d" "pathjoin d META_DATA_FILE \<noteq> model_file_path d"
    by (simp_all add: pathjoin_def META_DATA_FILE_def MODEL_FILE_def model_file_path_def)
  have f4: "?f4 d = Some Dir" "?f4 (model_file_path d) = Some (File xml)"
    "?f4 (pathjoin d META_DATA_FILE) = Some (File (json_dump env ?md))"
    using d x neq by (auto simp: write_file_def isdir_def)
  have sm: "save_meta_data env files ?s2 = (?s3, ?f4)"
    by (simp add: save_meta_data_def metadata_path_def Let_def)
  obtain r s4 files4 where lm: "load_model env ?f4 ?s3 None = (r, s4, files4)"
    by (cases "load_model env ?f4 ?s3 None") auto
  from load_model_None_files[of env ?f4 ?s3] lm have e4: "files4 = ?f4" by simp
  have sp: "sim_pathname s4 = d"
    using lm by (auto simp: load_model_None split: sum.splits prod.splits option.splits)
  have np: "\<forall>fname. d \<noteq> pathjoin (pathjoin (sim_pathname s4) fname) TRIAL_DATA_CSV"
    "\<forall>fname. model_file_path d \<noteq> pathjoin (pathjoin (sim_pathname s4) fname) TRIAL_DATA_CSV"
    "\<forall>fname. pathjoin d META_DATA_FILE \<noteq> pathjoin (pathjoin (sim_pathname s4) fname) TRIAL_DATA_CSV"
    using dir_not_trial_path[of d]
      no_slash_not_trial_path[of MODEL_FILE d] no_slash_not_trial_path[of META_DATA_FILE d]
    by (simp_all add: sp model_file_path_def MODEL_FILE_def META_DATA_FILE_def)
  note gk = generate_keeps[where files = ?f4 and p = d and s = s4 and env = env and reg = reg
                 and corr = None, OF f4(1) np(1)]
    generate_keeps[where files = ?f4 and p = "model_file_path d" and s = s4 and env = env
                 and reg = reg and corr = None, OF f4(2) np(2)]
    generate_keeps[where files = ?f4 and p = "pathjoin d META_DATA_FILE" and s = s4 and env = env
                 and reg = reg and corr = None, OF f4(3) np(3)]
  have init: "Simulation_init env reg files d (Some aname) ntrials fn None False =
     (case r of
        Inl e \<Rightarrow> (Inl e, ?f4)
      | Inr u \<Rightarrow>
          (if ntrials > 0 then
             (case generate env reg ?f4 s4 None of
                (Inl e, self5, files5) \<Rightarrow> (Inl e, files5)
              | (Inr u, self5, files5) \<Rightarrow> (Inr self5, files5))
           else (Inr s4, ?f4)))"
    using d x n
    by (simp add: Simulation_init_def truthy_def read_file_def Let_def sm lm[unfolded e4]
          split: sum.splits)
  show ?thesis
  proof (cases r)
    case (Inl e)
    with init f4 show ?thesis by (simp add: isdir_def)
  next
    case (Inr u)
    show ?thesis
    proof (cases "ntrials > 0")
      case False
      with init Inr f4 show ?thesis by (simp add: isdir_def)
    next
      case True
      obtain r5 s5 files5 where g: "generate env reg ?f4 s4 None = (r5, s5, files5)"
        by (cases "generate env reg ?f4 s4 None") auto
      from gk g have "files5 d = Some Dir" "files5 (model_file_path d) = Some (File xml)"
        "files5 (pathjoin d META_DATA_FILE) = Some (File (json_dump env ?md))" by simp_all
      with init Inr True g show ?thesis by (simp add: isdir_def split: sum.splits)
    qed
  qed
qed

lemma removeTree_gone: "removeTree files d d = None"
  by (simp add: removeTree_def below_def)

text \<open>
  C6, as the code has it. On a path that exists, \<^verbatim>\<open>new\<close> without \<^verbatim>\<open>overwrite\<close>
  raises the user error and leaves the files as they were. With \<^verbatim>\<open>overwrite\<close> it does
  what it would do had there been nothing at the path, so nothing of the prior contents
  survives; the directory is there afterwards. The merged model is written when
  \<^verbatim>\<open>ModelFile\<close> can build it, and \<^verbatim>\<open>metadata.json\<close> is written when moreover the
  analysis is in the merged model, whatever loading the model and generating the trial
  data do afterwards. When the analysis is not in the merged model, \<^verbatim>\<open>new\<close> raises a
  user error with the directory purged, the merged model written and no metadata.
\<close>

theorem new_existing_directory:
  "(lexists files sim_dir \<and> \<not> overwrite \<longrightarrow>
      new env instances files sim_dir model_files aname ntrials fnames overwrite use_default_model =
        (Inl (McsUserError
           (''Directory '' @ quoted sim_dir @ '' already exists. Use ''
              @ ''Simulation.new(sim_dir, overwrite=True) to replace it.'')), files))
   \<and> (lexists files sim_dir \<and> overwrite \<longrightarrow>
        new env instances files sim_dir model_files aname ntrials fnames overwrite use_default_model =
        new env instances (removeTree files sim_dir) sim_dir model_files aname ntrials fnames
          overwrite use_default_model)
   \<and> (lexists files sim_dir \<and> overwrite \<and> aname \<noteq> []
        \<and> ModelFile env (mkdirs (removeTree files sim_dir) sim_dir)
              \<lparr>mf_pathnames = model_files, mf_xml_string = None,
                  mf_use_default_model = use_default_model, mf_analysis_names = None,
                  mf_field_names = None, mf_save_to_path = Some (model_file_path sim_dir)\<rparr> = Inr (m, xml)
        \<and> get_analysis m (Some aname) False = Inr (Some a) \<longrightarrow>
        isdir (snd (new env instances files sim_dir model_files aname ntrials fnames overwrite
                      use_default_model)) sim_dir
        \<and> snd (new env instances files sim_dir model_files aname ntrials fnames overwrite
                  use_default_model) (model_file_path sim_dir) = Some (File xml)
        \<and> snd (new env instances files sim_dir model_files aname ntrials fnames overwrite
                  use_default_model) (pathjoin sim_dir META_DATA_FILE)
            = Some (File (json_dump env
                 \<lparr>md_analysis_name = Some aname, md_trials = ntrials,
                  md_field_names =
                    Some (if truthy fnames then the fnames else Analysis_field_names m a True)\<rparr>)))
   \<and> (lexists files sim_dir \<and> overwrite
        \<and> ModelFile env (mkdirs (removeTree files sim_dir) sim_dir)
              \<lparr>mf_pathnames = model_files, mf_xml_string = None,
                  mf_use_default_model = use_default_model, mf_analysis_names = None,
                  mf_field_names = None, mf_save_to_path = Some (model_file_path sim_dir)\<rparr> = Inr (m, xml)
        \<and> get_analysis m (Some aname) False = Inr None \<longrightarrow>
        new env instances files sim_dir model_files aname ntrials fnames overwrite use_default_model =
          (Inl (McsUserError (''Analysis '' @ quoted aname @ '' was not found in model'')),
           write_file (mkdirs (removeTree files sim_dir) sim_dir) (model_file_path sim_dir) xml))"
proof (intro conjI impI)
  assume "lexists files sim_dir \<and> \<not> overwrite"
  then show "new env instances files sim_dir model_files aname ntrials fnames overwrite use_default_model =
        (Inl (McsUserError
           (''Directory '' @ quoted sim_dir @ '' already exists. Use ''
              @ ''Simulation.new(sim_dir, overwrite=True) to replace it.'')), files)"
    by (simp add: new_def)
next
  assume "lexists files sim_dir \<and> overwrite"
  then show "new env instances files sim_dir model_files aname ntrials fnames overwrite use_default_model =
        new env instances (removeTree files sim_dir) sim_dir model_files aname ntrials fnames
          overwrite use_default_model"
    by (simp add: new_def lexists_def removeTree_gone)
next
  assume h: "lexists files sim_dir \<and> overwrite
        \<and> ModelFile env (mkdirs (removeTree files sim_dir) sim_dir)
              \<lparr>mf_pathnames = model_files, mf_xml_string = None,
                  mf_use_default_model = use_default_model, mf_analysis_names = None,
                  mf_field_names = None, mf_save_to_path = Some (model_file_path sim_dir)\<rparr> = Inr (m, xml)
        \<and> get_analysis m (Some aname) False = Inr None"
  then show "new env instances files sim_dir model_files aname ntrials fnames overwrite use_default_model =
          (Inl (McsUserError (''Analysis '' @ quoted aname @ '' was not found in model'')),
           write_file (mkdirs (removeTree files sim_dir) sim_dir) (model_file_path sim_dir) xml)"
    by (simp add: new_def ModelFile_new_def Let_def)
next
  assume h: "lexists files sim_dir \<and> overwrite \<and> aname \<noteq> []
        \<and> ModelFile env (mkdirs (removeTree files sim_dir) sim_dir)
              \<lparr>mf_pathnames = model_files, mf_xml_string = None,
                  mf_use_default_model = use_default_model, mf_analysis_names = None,
                  mf_field_names = None, mf_save_to_path = Some (model_file_path sim_dir)\<rparr> = Inr (m, xml)
        \<and> get_analysis m (Some aname) False = Inr (Some a)"
  let ?f2 = "mkdirs (removeTree files sim_dir) sim_dir"
  let ?f3 = "write_file ?f2 (model_file_path sim_dir) xml"
  let ?fn = "Some (if truthy fnames then the fnames else Analysis_field_names m a True)"
  have d: "isdir ?f3 sim_dir"
    by (simp add: isdir_def write_file_def mkdirs_def removeTree_gone model_file_path_def
          pathjoin_def)
  have x: "?f3 (model_file_path sim_dir) = Some (File xml)"
    by (simp add: write_file_def)
  from h have n: "aname \<noteq> []" by simp
  from h have e: "new env instances files sim_dir model_files aname ntrials fnames overwrite
                     use_default_model
                  = Simulation_init env instances ?f3 sim_dir (Some aname) ntrials ?fn None False"
    by (simp add: new_def ModelFile_new_def Let_def)
  note i = Simulation_init_files[where files = ?f3 and d = sim_dir and xml = xml and aname = aname
             and env = env and reg = instances and ntrials = ntrials and fn = ?fn, OF d x n]
  from i show "isdir (snd (new env instances files sim_dir model_files aname ntrials fnames overwrite
                      use_default_model)) sim_dir"
    by (simp only: e)
  from i show "snd (new env instances files sim_dir model_files aname ntrials fnames overwrite
                  use_default_model) (model_file_path sim_dir) = Some (File xml)"
    by (simp only: e)
  from i show "snd (new env instances files sim_dir model_files aname ntrials fnames overwrite
                  use_default_model) (pathjoin sim_dir META_DATA_FILE)
            = Some (File (json_dump env
                 \<lparr>md_analysis_name = Some aname, md_trials = ntrials,
                  md_field_names =
                    Some (if truthy fnames then the fnames else Analysis_field_names m a True)\<rparr>))"
    by (simp only: e)
qed


theorem new_existing_directory_witness:
  "lexists demo_files ''sim''
   \<and> new demo_env demo_registry demo_files ''sim'' [''model.xml''] ''a1'' 3 None False True =
        (Inl (McsUserError
           (''Directory '' @ quoted ''sim'' @ '' already exists. Use ''
              @ ''Simulation.new(sim_dir, overwrite=True) to replace it.'')), demo_files)
   \<and> isdir (snd (new demo_env demo_registry demo_files ''sim'' [''model.xml''] ''a1'' 3 None True True)) ''sim''
   \<and> snd (new demo_env demo_registry demo_files ''sim'' [''model.xml''] ''a1'' 3 None True True) (model_file_path ''sim'') = Some (File ''<Model/>'')
   \<and> snd (new demo_env demo_registry demo_files ''sim'' [''model.xml''] ''a1'' 3 None True True) (pathjoin ''sim'' META_DATA_FILE) = Some (File ''meta'')
   \<and> snd (new demo_env demo_registry demo_files ''sim'' [''model.xml''] ''a1'' 3 None True True) ''sim/f1/results.csv'' = None
   \<and> new demo_env demo_registry demo_files ''sim'' [''model.xml''] ''nope'' 3 None True True =
        (Inl (McsUserError (''Analysis '' @ quoted ''nope'' @ '' was not found in model'')),
         write_file (mkdirs (removeTree demo_files ''sim'') ''sim'') (model_file_path ''sim'')
           ''<Model/>'')"
proof -
  have e: "lexists demo_files ''sim''" by code_simp
  have m: "\<And>files args. ModelFile demo_env files args = Inr (demo_model, ''<Model/>'')"
    by (simp add: demo_env_def)
  have a: "get_analysis demo_model (Some ''a1'') False
      = Inr (Some \<lparr>ana_name = ''a1'', ana_attr_dict = [], ana_field_names = [''f1'', ''f2'']\<rparr>)"
    by code_simp
  have a': "get_analysis demo_model (Some ''nope'') False = Inr None" by code_simp
  have j: "\<And>md. json_dump demo_env md = ''meta''" by (simp add: demo_env_def)
  have o: "snd (new demo_env demo_registry demo_files ''sim'' [''model.xml''] ''a1'' 3 None True True) ''sim/f1/results.csv'' = None" by code_simp
  note t = new_existing_directory
      [where files = demo_files and sim_dir = "''sim''" and env = demo_env
         and instances = demo_registry and model_files = "[''model.xml'']"
         and ntrials = 3 and fnames = None and use_default_model = True and m = demo_model
         and xml = "''<Model/>''"]
  have p1: "lexists demo_files ''sim'' \<and> \<not> False" using e by simp
  note c1 = t[where overwrite = False and aname = "''a1''", THEN conjunct1, rule_format, OF p1]
  have p2: "lexists demo_files ''sim'' \<and> True \<and> ''a1'' \<noteq> []
        \<and> ModelFile demo_env (mkdirs (removeTree demo_files ''sim'') ''sim'')
              \<lparr>mf_pathnames = [''model.xml''], mf_xml_string = None,
                  mf_use_default_model = True, mf_analysis_names = None,
                  mf_field_names = None, mf_save_to_path = Some (model_file_path ''sim'')\<rparr> = Inr (demo_model, ''<Model/>'')
        \<and> get_analysis demo_model (Some ''a1'') False
            = Inr (Some \<lparr>ana_name = ''a1'', ana_attr_dict = [], ana_field_names = [''f1'', ''f2'']\<rparr>)"
    using e m a by simp
  note c2 = t[where overwrite = True and aname = "''a1''"
           and a = "\<lparr>ana_name = ''a1'', ana_attr_dict = [], ana_field_names = [''f1'', ''f2'']\<rparr>",
           THEN conjunct2, THEN conjunct2, THEN conjunct1, rule_format, OF p2, unfolded j]
  have p3: "lexists demo_files ''sim'' \<and> True
        \<and> ModelFile demo_env (mkdirs (removeTree demo_files ''sim'') ''sim'')
              \<lparr>mf_pathnames = [''model.xml''], mf_xml_string = None,
                  mf_use_default_model = True, mf_analysis_names = None,
                  mf_field_names = None, mf_save_to_path = Some (model_file_path ''sim'')\<rparr> = Inr (demo_model, ''<Model/>'')
        \<and> get_analysis demo_model (Some ''nope'') False = Inr None"
    using e m a' by simp
  note c3 = t[where overwrite = True and aname = "''nope''",
           THEN conjunct2, THEN conjunct2, THEN conjunct2, rule_format, OF p3]
  from e c1 c2 o c3 show ?thesis by blast
qed

text \<open>
  That \<^verbatim>\<open>new\<close> with \<^verbatim>\<open>overwrite\<close> always writes the metadata does not hold: on an
  existing directory and with an analysis that the merged model does not have, it
  raises, the metadata that was there is gone and none is written.
\<close>

theorem new_overwrite_missing_analysis_counterexample:
  "lexists demo_files ''sim''
   \<and> demo_files ''sim/metadata.json'' = Some (File ''meta'')
   \<and> isl (fst (new demo_env demo_registry demo_files ''sim'' [''model.xml''] ''nope'' 3 None True True))
   \<and> snd (new demo_env demo_registry demo_files ''sim'' [''model.xml''] ''nope'' 3 None True True) ''sim/metadata.json'' = None"
  by code_simp

end
